theory Spec2Isabelle
  imports Main "HOL-Library.Monad_Syntax"
begin

section \<open>The abstract sensor of rtslam (sensorAbstract.hpp, sensorAbstract.cpp)\<close>

text \<open>
  The sensor of \<^verbatim>\<open>sensorAbstract.cpp\<close> lives in an object graph: it points to its
  robot, the robot to its map, the map owns landmarks, and sensors hold observations.
  All of these are \<^verbatim>\<open>boost::shared_ptr\<close>s, so the model keeps one store per class
  (a list, an address is an index) and a pointer is an optional address: \<open>None\<close> is the
  null pointer. A method takes the store and returns \<open>None\<close> where the C++ dereferences
  a null pointer, fails a uBLAS range check or throws, and \<open>Some\<close> of its result
  otherwise.
\<close>

subsection \<open>Pointers and std::map\<close>

type_synonym ptr = "nat option"

definition deref :: "'b list \<Rightarrow> ptr \<Rightarrow> 'b option" where
  "deref h p = (case p of None \<Rightarrow> None | Some a \<Rightarrow> if a < length h then Some (h ! a) else None)"

text \<open>
  \<^verbatim>\<open>std::map<size_t, T>\<close> keeps its entries in ascending key order, one entry per key;
  \<^verbatim>\<open>m[k] = v\<close> overwrites the entry of \<open>k\<close> or inserts it at its place.
\<close>

fun map_put :: "nat \<Rightarrow> 'v \<Rightarrow> (nat \<times> 'v) list \<Rightarrow> (nat \<times> 'v) list" where
  "map_put k v [] = [(k, v)]"
| "map_put k v ((k', v') # r) =
     (if k < k' then (k, v) # (k', v') # r
      else if k = k' then (k, v) # r
      else (k', v') # map_put k v r)"

subsection \<open>Index arrays (jmath/indirectArray.hpp)\<close>

type_synonym ind_array = "nat list"

text \<open>Modelled from the spec: \<^verbatim>\<open>range(start, length)\<close> is the ordered index set
  \<open>start, start + 1, ..., start + length - 1\<close> (spec, section 4.1). The header
  \<^verbatim>\<open>jmath/indirectArray.hpp\<close> is not part of the sources; the sensor's code only calls
  \<^verbatim>\<open>ia_range(0, 7)\<close>, the indices 0 to 6.\<close>
definition ia_range :: "nat \<Rightarrow> nat \<Rightarrow> ind_array" where
  "ia_range start n = [start..<start + n]"

text \<open>Modelled from the spec: the union of two index sets is their merge in ascending
  order with duplicates removed (spec, section 4.1).\<close>
definition ia_union :: "ind_array \<Rightarrow> ind_array \<Rightarrow> ind_array" where
  "ia_union a b = sort (remdups (a @ b))"

subsection \<open>Gaussian: the dual-mode estimate (rtslam/gaussian.hpp)\<close>

datatype storage_t = LOCAL | REMOTE

text \<open>
  A \<^verbatim>\<open>Gaussian\<close> either owns its mean (\<open>LOCAL\<close>, field \<open>x_local\<close>) or views the mean
  vector of a map through its index array (\<open>REMOTE\<close>, field \<open>arena\<close> points to the map).
  The covariance is never read by the sensor's code and is left out.
\<close>

record 'a Gaussian =
  storage :: storage_t
  x_local :: "'a list"
  arena :: ptr
  ia :: ind_array

text \<open>Modelled from the spec: \<^verbatim>\<open>Gaussian(size)\<close> and \<^verbatim>\<open>Gaussian(vec)\<close> build a LOCAL
  quantity that owns a mean of that size (spec, section 4.2). The class is not part of the
  sources and the spec does not say what \<^verbatim>\<open>ia()\<close> of a LOCAL quantity holds, so the
  index array a LOCAL quantity of size \<open>n\<close> reports is the parameter \<open>lia n\<close>, and the
  value its cells start with is the parameter \<open>z\<close>.\<close>
definition Gaussian_size :: "(nat \<Rightarrow> ind_array) \<Rightarrow> 'a \<Rightarrow> nat \<Rightarrow> 'a Gaussian" where
  "Gaussian_size lia z n = \<lparr>storage = LOCAL, x_local = replicate n z, arena = None, ia = lia n\<rparr>"

definition Gaussian_vec :: "(nat \<Rightarrow> ind_array) \<Rightarrow> 'a list \<Rightarrow> 'a Gaussian" where
  "Gaussian_vec lia v = \<lparr>storage = LOCAL, x_local = v, arena = None, ia = lia (length v)\<rparr>"

text \<open>Modelled from the spec: \<^verbatim>\<open>Gaussian(G, ia)\<close> builds a REMOTE quantity, a view of the
  cells of \<open>G\<close> that \<open>ia\<close> selects (spec, section 4.2): selecting cell \<open>i\<close> of a view
  is selecting the cell of the arena that the view's own index array names at position
  \<open>i\<close>. An index beyond the viewed quantity is a range error.\<close>
definition Gaussian_remote :: "'a Gaussian \<Rightarrow> ind_array \<Rightarrow> 'a Gaussian option" where
  "Gaussian_remote G sel =
     (if list_all (\<lambda>i. i < length (ia G)) sel
      then Some \<lparr>storage = REMOTE, x_local = [], arena = arena G, ia = map (\<lambda>i. ia G ! i) sel\<rparr>
      else None)"

subsection \<open>Objects of the map\<close>

text \<open>
  \<^verbatim>\<open>ObjectAbstract\<close> carries the identity accessors the sensor's code calls:
  \<^verbatim>\<open>categoryName()\<close>, \<^verbatim>\<open>id()\<close>, \<^verbatim>\<open>name()\<close> and \<^verbatim>\<open>type()\<close>. \<^verbatim>\<open>MapObject\<close> adds the
  \<^verbatim>\<open>state\<close>, the slice of the map the object reserved (or a LOCAL one of size 0).
\<close>

record ObjectAbstract =
  categoryName :: string
  oid :: nat
  name :: string
  otype :: string

record 'a MapObject = ObjectAbstract +
  state :: "'a Gaussian"

text \<open>Modelled from the spec: the classes \<^verbatim>\<open>MapAbstract\<close>, \<^verbatim>\<open>RobotAbstract\<close>,
  \<^verbatim>\<open>LandmarkAbstract\<close> and \<^verbatim>\<open>ObservationAbstract\<close> are declared in headers that are
  not part of the sources. The records hold the members that \<^verbatim>\<open>sensorAbstract.cpp\<close>
  reads (\<^verbatim>\<open>robot->slamMap\<close>, \<^verbatim>\<open>_rob.pose\<close>, \<^verbatim>\<open>slamMapPtr->landmarkIds\<close>) and those
  the spec gives them (section 3): the map's arena, its id pool and its id-to-landmark
  table; the robot's map and its sensors; the landmark's map; the observation's sensor
  and landmark.\<close>

record 'a MapAbstract =
  max_size :: nat
  current_size :: nat
  mean :: "nat \<Rightarrow> 'a"
  landmarkIds :: nat
  landmarks :: "(nat \<times> ptr) list"
  robots :: "ptr list"

record 'a RobotAbstract = "'a MapObject" +
  slamMap :: ptr
  pose :: "'a Gaussian"
  sensors :: "ptr list"

record 'a LandmarkAbstract = "'a MapObject" +
  lmk_slamMap :: ptr

record ObservationAbstract = ObjectAbstract +
  obs_sensor :: ptr
  obs_landmark :: ptr

text \<open>The members of \<^verbatim>\<open>class SensorAbstract: public MapObject\<close> in
  \<^verbatim>\<open>sensorAbstract.hpp\<close>. The protected pointer \<^verbatim>\<open>paramsAbs\<close> is neither read nor
  written by \<^verbatim>\<open>sensorAbstract.cpp\<close> and is left out.\<close>

record 'a SensorAbstract = "'a MapObject" +
  robot :: ptr
  observations :: "(nat \<times> ptr) list"
  pose :: "'a Gaussian"
  ia_globalPose :: ind_array

text \<open>What \<^verbatim>\<open>std::ostream\<close> receives, one item per \<^verbatim>\<open><<\<close>.\<close>

datatype 'a out_item =
  Str string | Num nat | Endl | OutGaussian "'a Gaussian" | OutIndArray ind_array

record 'a world =
  heap_maps :: "'a MapAbstract list"
  heap_robots :: "'a RobotAbstract list"
  heap_sensors :: "'a SensorAbstract list"
  heap_landmarks :: "'a LandmarkAbstract list"
  heap_observations :: "ObservationAbstract list"
  cout :: "'a out_item list"

subsection \<open>The map's arena and the construction of map objects\<close>

text \<open>Modelled from the spec: \<^verbatim>\<open>unusedStates(n)\<close> tells whether \<open>n\<close> contiguous free
  cells exist in the map's state (spec, sections 4.5 and 6). \<^verbatim>\<open>rtslam/mapAbstract.hpp\<close> is
  not part of the sources; the arena is a state of \<open>max_size\<close> cells of which the first
  \<open>current_size\<close> are reserved, and nothing in the sensor's code releases a cell.\<close>
definition unusedStates :: "'a MapAbstract \<Rightarrow> nat \<Rightarrow> bool" where
  "unusedStates m n = (current_size m + n \<le> max_size m)"

text \<open>Modelled from the spec: a fresh \<^verbatim>\<open>ObjectAbstract\<close> has an identifier, a name, a
  category and a type (spec, section 3, MapObject). The spec gives them no initial value:
  they start empty, and no theorem below depends on it.\<close>
definition ObjectAbstract_new :: ObjectAbstract where
  "ObjectAbstract_new = \<lparr>categoryName = [], oid = 0, name = [], otype = []\<rparr>"

text \<open>Modelled from the spec: \<^verbatim>\<open>MapObject(size)\<close>, built without a map, is a purely local
  entity; its state is a LOCAL quantity of that size (spec, section 4.3).\<close>
definition MapObject_local :: "(nat \<Rightarrow> ind_array) \<Rightarrow> 'a \<Rightarrow> nat \<Rightarrow> 'a MapObject" where
  "MapObject_local lia z n =
     \<lparr>categoryName = categoryName ObjectAbstract_new, oid = oid ObjectAbstract_new,
      name = name ObjectAbstract_new, otype = otype ObjectAbstract_new,
      state = Gaussian_size lia z n\<rparr>"

text \<open>Modelled from the spec: \<^verbatim>\<open>MapObject(map, n)\<close> requests \<open>n\<close> contiguous free cells
  of the map and fails with \<^verbatim>\<open>ArenaExhaustedError\<close> when there are none (spec, section
  4.3); its state is the REMOTE view of the reserved slice.\<close>
definition MapObject_map :: "ptr \<Rightarrow> nat \<Rightarrow> 'a world \<Rightarrow> ('a MapObject \<times> 'a world) option" where
  "MapObject_map mp n w =
     (case mp of None \<Rightarrow> None
      | Some a \<Rightarrow> do {
          m \<leftarrow> deref (heap_maps w) mp;
          if unusedStates m n
          then Some
            (\<lparr>categoryName = categoryName ObjectAbstract_new, oid = oid ObjectAbstract_new,
              name = name ObjectAbstract_new, otype = otype ObjectAbstract_new,
              state = \<lparr>storage = REMOTE, x_local = [], arena = mp,
                       ia = ia_range (current_size m) n\<rparr>\<rparr>,
             w\<lparr>heap_maps := (heap_maps w)[a := m\<lparr>current_size := current_size m + n\<rparr>]\<rparr>)
          else None })"

subsection \<open>The constructors of SensorAbstract\<close>

text \<open>
  Every constructor runs its initialisers in the order base, \<^verbatim>\<open>pose\<close>,
  \<^verbatim>\<open>ia_globalPose\<close>, leaves \<^verbatim>\<open>robot\<close> null and \<^verbatim>\<open>observations\<close> empty, and its body
  sets the category name to \<^verbatim>\<open>"SENSOR"\<close>. \<open>sensor_of\<close> assembles the object from the
  three initialisers.
\<close>

definition sensor_of :: "'a MapObject \<Rightarrow> 'a Gaussian \<Rightarrow> ind_array \<Rightarrow> 'a SensorAbstract" where
  "sensor_of mo p g =
     \<lparr>categoryName = ''SENSOR'', oid = oid mo, name = name mo, otype = otype mo,
      state = state mo, robot = None, observations = [], pose = p, ia_globalPose = g\<rparr>"

text \<open>\<^verbatim>\<open>SensorAbstract() : MapObject(0), pose(7), ia_globalPose(0)\<close>; an
  \<^verbatim>\<open>ind_array\<close> of size 0 is the empty index array.\<close>
definition SensorAbstract_empty :: "(nat \<Rightarrow> ind_array) \<Rightarrow> 'a \<Rightarrow> 'a SensorAbstract" where
  "SensorAbstract_empty lia z = sensor_of (MapObject_local lia z 0) (Gaussian_size lia z 7) []"

text \<open>\<^verbatim>\<open>SensorAbstract(const vec7 & _pose) : MapObject(0), pose(_pose), ia_globalPose(0)\<close>\<close>
definition SensorAbstract_vec7 ::
  "(nat \<Rightarrow> ind_array) \<Rightarrow> 'a \<Rightarrow> 'a list \<Rightarrow> 'a SensorAbstract" where
  "SensorAbstract_vec7 lia z v = sensor_of (MapObject_local lia z 0) (Gaussian_vec lia v) []"

text \<open>\<^verbatim>\<open>SensorAbstract(const Gaussian & _pose) : MapObject(0), pose(_pose), ia_globalPose(0)\<close>\<close>
definition SensorAbstract_Gaussian ::
  "(nat \<Rightarrow> ind_array) \<Rightarrow> 'a \<Rightarrow> 'a Gaussian \<Rightarrow> 'a SensorAbstract" where
  "SensorAbstract_Gaussian lia z G = sensor_of (MapObject_local lia z 0) G []"

text \<open>
  The selectable constructor:
  \<^verbatim>\<open>MapObject(inFilter ? MapObject(*_rob.slamMap, 7) : 0)\<close>,
  \<^verbatim>\<open>pose(inFilter ? Gaussian(state, ia_range(0, 7)) : Gaussian(7))\<close>,
  \<^verbatim>\<open>ia_globalPose(inFilter ? ia_union(_rob.pose.ia(), pose.ia()) : pose.ia())\<close>.
  The base is the map object the conditional yields (copying a map object copies its
  fields). \<^verbatim>\<open>_rob\<close> is a reference to the robot; the map is reached through the store.
\<close>
definition SensorAbstract_rob ::
  "(nat \<Rightarrow> ind_array) \<Rightarrow> 'a \<Rightarrow> 'a RobotAbstract \<Rightarrow> bool \<Rightarrow> 'a world
     \<Rightarrow> ('a SensorAbstract \<times> 'a world) option" where
  "SensorAbstract_rob lia z rob inFilter w = do {
     (mo, w') \<leftarrow> (if inFilter then MapObject_map (slamMap rob) 7 w
                  else Some (MapObject_local lia z 0, w));
     p \<leftarrow> (if inFilter then Gaussian_remote (state mo) (ia_range 0 7)
            else Some (Gaussian_size lia z 7));
     let g = (if inFilter then ia_union (ia (RobotAbstract.pose rob)) (ia p) else ia p);
     Some (sensor_of mo p g, w') }"

subsection \<open>Links\<close>

text \<open>\<^verbatim>\<open>observations[_obsPtr->id()] = _obsPtr;\<close>\<close>
definition linkToObservation :: "nat \<Rightarrow> ptr \<Rightarrow> 'a world \<Rightarrow> 'a world option" where
  "linkToObservation this obsPtr w = do {
     s \<leftarrow> deref (heap_sensors w) (Some this);
     ob \<leftarrow> deref (heap_observations w) obsPtr;
     Some (w\<lparr>heap_sensors :=
       (heap_sensors w)[this := s\<lparr>observations := map_put (oid ob) obsPtr (observations s)\<rparr>]\<rparr>) }"

text \<open>\<^verbatim>\<open>robot = _robPtr;\<close>\<close>
definition linkToRobot :: "nat \<Rightarrow> ptr \<Rightarrow> 'a world \<Rightarrow> 'a world option" where
  "linkToRobot this robPtr w = do {
     s \<leftarrow> deref (heap_sensors w) (Some this);
     Some (w\<lparr>heap_sensors := (heap_sensors w)[this := s\<lparr>robot := robPtr\<rparr>]\<rparr>) }"

text \<open>A sequence of \<^verbatim>\<open>linkToObservation\<close> calls on one sensor.\<close>
fun linkToObservations :: "nat \<Rightarrow> ptr list \<Rightarrow> 'a world \<Rightarrow> 'a world option" where
  "linkToObservations this [] w = Some w"
| "linkToObservations this (p # ps) w =
     (case linkToObservation this p w of None \<Rightarrow> None
      | Some w' \<Rightarrow> linkToObservations this ps w')"

subsection \<open>The diagnostic dump\<close>

text \<open>
  \<^verbatim>\<open>operator<<(std::ostream & s, SensorAbstract & sen)\<close>: the stream is the list of
  items written so far. The Gaussian and the index array are written by their own
  \<^verbatim>\<open>operator<<\<close>, which are not part of the sources: each is one item.
\<close>
definition sensor_out ::
  "'a out_item list \<Rightarrow> 'a SensorAbstract \<Rightarrow> 'a world \<Rightarrow> 'a out_item list option" where
  "sensor_out s sen w = do {
     let s1 = s @ [Str (categoryName sen), Str '' '', Num (oid sen), Str '': ''];
     let s2 = (if length (name sen) > 0 then s1 @ [Str (name sen), Str '', ''] else s1);
     let s3 = s2 @ [Str ''of type '', Str (otype sen), Endl];
     let s4 = s3 @ [Str ''.pose :  '', OutGaussian (pose sen), Endl];
     rob \<leftarrow> deref (heap_robots w) (robot sen);
     let s5 = s4 @ [Str ''.robot: [ '', Num (oid rob), Str '' ]''];
     Some (if storage (pose sen) = REMOTE
           then s5 @ [Endl, Str '' ia_rs: '', OutIndArray (ia_globalPose sen)]
           else s5) }"

subsection \<open>Matrices and the frame composition (jblas, rtslam/quatTools.hpp)\<close>

text \<open>
  A \<^verbatim>\<open>jblas::mat\<close> is a uBLAS matrix: its two sizes and its cells. The sensor's code
  never computes with a cell, it only moves cells, so the scalar type is a type variable.
\<close>

record 'a mat =
  size1 :: nat
  size2 :: nat
  elem :: "nat \<Rightarrow> nat \<Rightarrow> 'a"

text \<open>
  \<^verbatim>\<open>project(M, range(r0, r1), range(c0, c1)) = B\<close>: the assignment to a
  \<^verbatim>\<open>matrix_range\<close>. uBLAS checks that the ranges lie within \<open>M\<close> and that \<open>B\<close> has the
  sizes of the block; \<open>M\<close> keeps its own sizes and its cells outside the block.
\<close>
definition project_assign ::
  "'a mat \<Rightarrow> nat \<times> nat \<Rightarrow> nat \<times> nat \<Rightarrow> 'a mat \<Rightarrow> 'a mat option" where
  "project_assign M rr cr B =
     (case (rr, cr) of ((r0, r1), (c0, c1)) \<Rightarrow>
        if r0 \<le> r1 \<and> r1 \<le> size1 M \<and> c0 \<le> c1 \<and> c1 \<le> size2 M \<and>
           size1 B = r1 - r0 \<and> size2 B = c1 - c0
        then Some (M\<lparr>elem := \<lambda>i j.
               if r0 \<le> i \<and> i < r1 \<and> c0 \<le> j \<and> j < c1 then elem B (i - r0) (j - c0)
               else elem M i j\<rparr>)
        else None)"

text \<open>
  \<^verbatim>\<open>rtslam/quatTools.hpp\<close> is not part of the sources. What it computes is a parameter:
  the composed frame, and the cells of the Jacobians of the composed frame with respect
  to the first (global, here the robot's) and to the second (local, here the sensor's)
  frame.
\<close>
record 'a quatTools =
  compose :: "'a list \<Rightarrow> 'a list \<Rightarrow> 'a list"
  d_global :: "'a list \<Rightarrow> 'a list \<Rightarrow> nat \<Rightarrow> nat \<Rightarrow> 'a"
  d_local :: "'a list \<Rightarrow> 'a list \<Rightarrow> nat \<Rightarrow> nat \<Rightarrow> 'a"

text \<open>Modelled from the spec: \<^verbatim>\<open>composeFrames(basePose7, offsetPose7) -> globalPose7\<close>
  (spec, section 6).\<close>
definition composeFrames :: "'a quatTools \<Rightarrow> 'a list \<Rightarrow> 'a list \<Rightarrow> 'a list" where
  "composeFrames Q G L = compose Q G L"

text \<open>Modelled from the spec: for a LOCAL sensor pose the output is a 7x7 block, the
  Jacobian of the composed pose with respect to the robot's state (spec, section 4.4);
  \<^verbatim>\<open>composeFrames_by_dglobal(G, L, C_g)\<close> writes it to its third argument.\<close>
definition composeFrames_by_dglobal ::
  "'a quatTools \<Rightarrow> 'a list \<Rightarrow> 'a list \<Rightarrow> 'a mat \<Rightarrow> 'a mat" where
  "composeFrames_by_dglobal Q G L C_g = \<lparr>size1 = 7, size2 = 7, elem = d_global Q G L\<rparr>"

text \<open>Modelled from the spec: \<^verbatim>\<open>composeFrames(basePose7, offsetPose7, &globalPose7,
  &jacobianWrtBase7x7, &jacobianWrtOffset7x7)\<close> (spec, section 6): the composed frame of
  the two-argument form and the two 7x7 Jacobians.\<close>
definition composeFrames_jac ::
  "'a quatTools \<Rightarrow> 'a list \<Rightarrow> 'a list \<Rightarrow> 'a list \<times> 'a mat \<times> 'a mat" where
  "composeFrames_jac Q G L =
     (compose Q G L,
      \<lparr>size1 = 7, size2 = 7, elem = d_global Q G L\<rparr>,
      \<lparr>size1 = 7, size2 = 7, elem = d_local Q G L\<rparr>)"

text \<open>Modelled from the spec: the mean accessor \<^verbatim>\<open>x()\<close> reads the quantity's own
  vector when it is LOCAL and the cells of the shared arena that its index array names
  when it is REMOTE (spec, section 3, EstimateQuantity).\<close>
definition Gaussian_x :: "'a world \<Rightarrow> 'a Gaussian \<Rightarrow> 'a list option" where
  "Gaussian_x w G =
     (case storage G of
        LOCAL \<Rightarrow> Some (x_local G)
      | REMOTE \<Rightarrow> do { m \<leftarrow> deref (heap_maps w) (arena G); Some (map (mean m) (ia G)) })"

text \<open>\<^verbatim>\<open>jblas::vec7 v = e;\<close>: a \<^verbatim>\<open>vec7\<close> is a bounded vector of at most 7 cells.\<close>
definition vec7 :: "'a list \<Rightarrow> 'a list option" where
  "vec7 v = (if length v \<le> 7 then Some v else None)"

subsection \<open>The sensor pose in the global frame\<close>

text \<open>
  \<^verbatim>\<open>void SensorAbstract::globalPose(jblas::vec7 & senGlobalPos, jblas::mat & SG_rs)\<close>.
  The two arguments are references: the model takes their values at the call and returns
  their values at the return, with the store.
\<close>
definition globalPose ::
  "'a quatTools \<Rightarrow> nat \<Rightarrow> 'a list \<Rightarrow> 'a mat \<Rightarrow> 'a world
     \<Rightarrow> ('a list \<times> 'a mat \<times> 'a world) option" where
  "globalPose Q this senGlobalPos SG_rs w = do {
     s \<leftarrow> deref (heap_sensors w) (Some this);
     rob \<leftarrow> deref (heap_robots w) (robot s);
     rx \<leftarrow> Gaussian_x w (RobotAbstract.pose rob);
     robotPose \<leftarrow> vec7 rx;
     sx \<leftarrow> Gaussian_x w (pose s);
     sensorPose \<leftarrow> vec7 sx;
     if storage (pose s) = LOCAL
     then Some (composeFrames Q robotPose sensorPose,
                composeFrames_by_dglobal Q robotPose sensorPose SG_rs, w)
     else do {
       (senGlobalPos', PG_r, PG_s) \<leftarrow> Some (composeFrames_jac Q robotPose sensorPose);
       SG_rs1 \<leftarrow> project_assign SG_rs (0, 7) (0, 7) PG_r;
       SG_rs2 \<leftarrow> project_assign SG_rs1 (0, 7) (7, 14) PG_s;
       Some (senGlobalPos', SG_rs2, w) } }"

subsection \<open>Processing raw data: known landmarks, then new ones\<close>

text \<open>The loop of \<^verbatim>\<open>observeKnownLmks\<close> over the entries of \<^verbatim>\<open>observations\<close>, in the
  map's order: \<^verbatim>\<open>cout << "exploring obs: " << obsPtr->id() << endl;\<close>\<close>
fun exploring :: "(nat \<times> ptr) list \<Rightarrow> 'a world \<Rightarrow> 'a world option" where
  "exploring [] w = Some w"
| "exploring ((k, obsPtr) # r) w = do {
     ob \<leftarrow> deref (heap_observations w) obsPtr;
     exploring r (w\<lparr>cout := cout w @ [Str ''exploring obs: '', Num (oid ob), Endl]\<rparr>) }"

definition observeKnownLmks :: "nat \<Rightarrow> 'a world \<Rightarrow> 'a world option" where
  "observeKnownLmks this w = do {
     s \<leftarrow> deref (heap_sensors w) (Some this);
     exploring (observations s) w }"

text \<open>Modelled from the spec: the map's landmark id pool hands out the next id
  (spec, section 4.5); \<^verbatim>\<open>landmarkIds.getId()\<close> returns it and moves the pool on.\<close>
definition getId :: "ptr \<Rightarrow> 'a world \<Rightarrow> (nat \<times> 'a world) option" where
  "getId mp w =
     (case mp of None \<Rightarrow> None
      | Some a \<Rightarrow> do {
          m \<leftarrow> deref (heap_maps w) mp;
          Some (landmarkIds m,
                w\<lparr>heap_maps := (heap_maps w)[a := m\<lparr>landmarkIds := Suc (landmarkIds m)\<rparr>]\<rparr>) })"

text \<open>A write through a landmark pointer: \<^verbatim>\<open>lmkPtr->f(...)\<close>.\<close>
definition upd_landmark ::
  "ptr \<Rightarrow> ('a LandmarkAbstract \<Rightarrow> 'a LandmarkAbstract) \<Rightarrow> 'a world \<Rightarrow> 'a world option" where
  "upd_landmark lp f w =
     (case lp of None \<Rightarrow> None
      | Some a \<Rightarrow> do {
          l \<leftarrow> deref (heap_landmarks w) lp;
          Some (w\<lparr>heap_landmarks := (heap_landmarks w)[a := f l]\<rparr>) })"

text \<open>Modelled from the spec: a landmark is a map object that reserves the cells its
  parametrization needs when it is built (spec, sections 3 and 4.3);
  \<^verbatim>\<open>new LandmarkAnchoredHomogeneousPoint(map)\<close> puts it in the store. The size \<open>n\<close> is
  \<^verbatim>\<open>LandmarkAnchoredHomogeneousPoint::size()\<close>.\<close>
definition new_LandmarkAnchoredHomogeneousPoint ::
  "nat \<Rightarrow> ptr \<Rightarrow> 'a world \<Rightarrow> (ptr \<times> 'a world) option" where
  "new_LandmarkAnchoredHomogeneousPoint n mp w = do {
     (mo, w1) \<leftarrow> MapObject_map mp n w;
     Some (Some (length (heap_landmarks w1)),
           w1\<lparr>heap_landmarks := heap_landmarks w1 @
             [\<lparr>categoryName = categoryName mo, oid = oid mo, name = name mo, otype = otype mo,
               state = state mo, lmk_slamMap = None\<rparr>]\<rparr>) }"

text \<open>Modelled from the spec: \<^verbatim>\<open>MapAbstract::linkToLandmark\<close> registers the landmark in
  the map's id-to-landmark table (spec, section 4.5).\<close>
definition linkToLandmark :: "ptr \<Rightarrow> ptr \<Rightarrow> 'a world \<Rightarrow> 'a world option" where
  "linkToLandmark mp lmkPtr w =
     (case mp of None \<Rightarrow> None
      | Some a \<Rightarrow> do {
          m \<leftarrow> deref (heap_maps w) mp;
          l \<leftarrow> deref (heap_landmarks w) lmkPtr;
          Some (w\<lparr>heap_maps :=
            (heap_maps w)[a := m\<lparr>landmarks := map_put (oid l) lmkPtr (landmarks m)\<rparr>]\<rparr>) })"

text \<open>Modelled from the spec: \<^verbatim>\<open>LandmarkAbstract::linkToMap\<close> is the landmark's link to
  its map (spec, section 4.5).\<close>
definition linkToMap :: "ptr \<Rightarrow> ptr \<Rightarrow> 'a world \<Rightarrow> 'a world option" where
  "linkToMap lmkPtr mp w = upd_landmark lmkPtr (\<lambda>l. l\<lparr>lmk_slamMap := mp\<rparr>) w"

text \<open>\<^verbatim>\<open>landmark_ptr_t SensorAbstract::newLandmark(map_ptr_t slamMapPtr)\<close>\<close>
definition newLandmark :: "nat \<Rightarrow> ptr \<Rightarrow> 'a world \<Rightarrow> (ptr \<times> 'a world) option" where
  "newLandmark n slamMapPtr w = do {
     (lmkPtr, w1) \<leftarrow> new_LandmarkAnchoredHomogeneousPoint n slamMapPtr w;
     (lid, w2) \<leftarrow> getId slamMapPtr w1;
     w3 \<leftarrow> upd_landmark lmkPtr (\<lambda>l. l\<lparr>oid := lid\<rparr>) w2;
     w4 \<leftarrow> upd_landmark lmkPtr (\<lambda>l. l\<lparr>name := []\<rparr>) w3;
     w5 \<leftarrow> linkToLandmark slamMapPtr lmkPtr w4;
     w6 \<leftarrow> linkToMap lmkPtr slamMapPtr w5;
     Some (lmkPtr, w6) }"

text \<open>Modelled from the spec: the observation that will track a landmark is a record of
  one sensor and one landmark, linked to the sensor under the landmark's id (spec,
  sections 3 and 4.5).\<close>
definition newObservation :: "ptr \<Rightarrow> ptr \<Rightarrow> 'a world \<Rightarrow> 'a world option" where
  "newObservation senPtr lmkPtr w =
     (case senPtr of None \<Rightarrow> None
      | Some sa \<Rightarrow> do {
          l \<leftarrow> deref (heap_landmarks w) lmkPtr;
          linkToObservation sa (Some (length (heap_observations w)))
            (w\<lparr>heap_observations := heap_observations w @
               [\<lparr>categoryName = ''OBSERVATION'', oid = oid l, name = [], otype = [],
                 obs_sensor = senPtr, obs_landmark = lmkPtr\<rparr>]\<rparr>) })"

fun for_each :: "('b \<Rightarrow> 's \<Rightarrow> 's option) \<Rightarrow> 'b list \<Rightarrow> 's \<Rightarrow> 's option" where
  "for_each f [] w = Some w"
| "for_each f (x # xs) w = (case f x w of None \<Rightarrow> None | Some w' \<Rightarrow> for_each f xs w')"

text \<open>The sensors a map reaches: those of its robots.\<close>
definition map_sensors :: "'a world \<Rightarrow> 'a MapAbstract \<Rightarrow> ptr list option" where
  "map_sensors w m = do {
     rs \<leftarrow> those (map (deref (heap_robots w)) (robots m));
     Some (concat (map sensors rs)) }"

text \<open>Modelled from the spec: \<^verbatim>\<open>MapAbstract::addObservations(lmkPtr)\<close> links the sensor's
  observation table under the id of the new landmark (spec, section 4.5). The call names
  no sensor: the map creates the observation for each sensor of each of its robots.\<close>
definition addObservations :: "ptr \<Rightarrow> ptr \<Rightarrow> 'a world \<Rightarrow> 'a world option" where
  "addObservations mp lmkPtr w = do {
     m \<leftarrow> deref (heap_maps w) mp;
     ss \<leftarrow> map_sensors w m;
     for_each (\<lambda>senPtr. newObservation senPtr lmkPtr) ss w }"

text \<open>\<^verbatim>\<open>void SensorAbstract::discoverNewLmks()\<close>; \<open>size_lmkAHP\<close> is
  \<^verbatim>\<open>LandmarkAnchoredHomogeneousPoint::size()\<close>.\<close>
definition discoverNewLmks :: "nat \<Rightarrow> nat \<Rightarrow> 'a world \<Rightarrow> 'a world option" where
  "discoverNewLmks size_lmkAHP this w = do {
     s \<leftarrow> deref (heap_sensors w) (Some this);
     rob \<leftarrow> deref (heap_robots w) (robot s);
     slamMapPtr \<leftarrow> Some (slamMap rob);
     m \<leftarrow> deref (heap_maps w) slamMapPtr;
     if unusedStates m size_lmkAHP
     then do {
       (lmkPtr, w1) \<leftarrow> newLandmark size_lmkAHP slamMapPtr w;
       l \<leftarrow> deref (heap_landmarks w1) lmkPtr;
       addObservations slamMapPtr lmkPtr
         (w1\<lparr>cout := cout w1 @ [Str ''    added lmk: '', Num (oid l), Endl]\<rparr>) }
     else Some w }"

text \<open>\<^verbatim>\<open>void SensorAbstract::processRaw() { observeKnownLmks(); discoverNewLmks(); }\<close>\<close>
definition processRaw :: "nat \<Rightarrow> nat \<Rightarrow> 'a world \<Rightarrow> 'a world option" where
  "processRaw size_lmkAHP this w = do {
     w1 \<leftarrow> observeKnownLmks this w;
     discoverNewLmks size_lmkAHP this w1 }"

text \<open>\<^verbatim>\<open>void SensorAbstract::acquireRaw()\<close> has an empty body.\<close>
definition acquireRaw :: "nat \<Rightarrow> 'a world \<Rightarrow> 'a world option" where
  "acquireRaw this w = Some w"

text \<open>\<open>k\<close> calls of \<^verbatim>\<open>processRaw\<close> in a row.\<close>
fun cycles :: "nat \<Rightarrow> nat \<Rightarrow> nat \<Rightarrow> 'a world \<Rightarrow> 'a world option" where
  "cycles 0 n this w = Some w"
| "cycles (Suc k) n this w =
     (case processRaw n this w of None \<Rightarrow> None | Some w' \<Rightarrow> cycles k n this w')"

subsection \<open>Notions used to state the properties\<close>

text \<open>Every entry of an observation table points to an observation whose own id is the
  entry's key.\<close>
definition keyed_by_id :: "ObservationAbstract list \<Rightarrow> (nat \<times> ptr) list \<Rightarrow> bool" where
  "keyed_by_id h t =
     list_all (\<lambda>(k, p). case deref h p of None \<Rightarrow> False | Some ob \<Rightarrow> oid ob = k) t"

text \<open>The mapping from ids to observations that a sequence of links denotes: each link
  binds the observation's id to the observation, the latest binding of an id standing.\<close>
fun put_all :: "ObservationAbstract list \<Rightarrow> ptr list \<Rightarrow> (nat \<rightharpoonup> ptr) \<Rightarrow> (nat \<rightharpoonup> ptr)" where
  "put_all h [] m = m"
| "put_all h (p # ps) m =
     (case deref h p of None \<Rightarrow> m | Some ob \<Rightarrow> put_all h ps (m(oid ob \<mapsto> p)))"

text \<open>The reads that \<^verbatim>\<open>globalPose\<close> starts with: the sensor, and the means of the
  robot's pose and of the sensor's pose.\<close>
definition pose_means :: "'a world \<Rightarrow> nat \<Rightarrow> ('a SensorAbstract \<times> 'a list \<times> 'a list) option" where
  "pose_means w this = do {
     s \<leftarrow> deref (heap_sensors w) (Some this);
     rob \<leftarrow> deref (heap_robots w) (robot s);
     rx \<leftarrow> Gaussian_x w (RobotAbstract.pose rob);
     robotPose \<leftarrow> vec7 rx;
     sx \<leftarrow> Gaussian_x w (pose s);
     sensorPose \<leftarrow> vec7 sx;
     Some (s, robotPose, sensorPose) }"

text \<open>What \<^verbatim>\<open>observeKnownLmks\<close> writes for a list of observations: one line each.\<close>
definition explored :: "ObservationAbstract list \<Rightarrow> 'a out_item list" where
  "explored obs = concat (map (\<lambda>ob. [Str ''exploring obs: '', Num (oid ob), Endl]) obs)"

text \<open>The observations an observation table points to, in the table's order; \<open>None\<close>
  when an entry is a null pointer.\<close>
definition observed :: "'a world \<Rightarrow> (nat \<times> ptr) list \<Rightarrow> ObservationAbstract list option" where
  "observed w t = those (map (\<lambda>(k, p). deref (heap_observations w) p) t)"

text \<open>The observation table of sensor \<open>sa\<close> holds, under \<open>lid\<close>, an observation of the
  landmark \<open>lp\<close> by this sensor whose own id is \<open>lid\<close>.\<close>
definition tracks :: "'a world \<Rightarrow> nat \<Rightarrow> nat \<Rightarrow> ptr \<Rightarrow> bool" where
  "tracks w sa lid lp =
     (case deref (heap_sensors w) (Some sa) of None \<Rightarrow> False
      | Some s \<Rightarrow>
         (case map_of (observations s) lid of None \<Rightarrow> False
          | Some op \<Rightarrow>
             (case deref (heap_observations w) op of None \<Rightarrow> False
              | Some ob \<Rightarrow> oid ob = lid \<and> obs_landmark ob = lp \<and> obs_sensor ob = Some sa)))"

text \<open>The reads that \<^verbatim>\<open>discoverNewLmks\<close> starts with: the sensor, and the map of its
  robot (\<^verbatim>\<open>robot->slamMap\<close>) with its address.\<close>
definition sensor_map :: "'a world \<Rightarrow> nat \<Rightarrow> ('a SensorAbstract \<times> nat \<times> 'a MapAbstract) option" where
  "sensor_map w this = do {
     s \<leftarrow> deref (heap_sensors w) (Some this);
     rob \<leftarrow> deref (heap_robots w) (robot s);
     a \<leftarrow> slamMap rob;
     m \<leftarrow> deref (heap_maps w) (Some a);
     Some (s, a, m) }"

subsection \<open>A concrete store\<close>

text \<open>Concrete objects for the examples: scalars are integers, a LOCAL quantity of size
  \<open>n\<close> reports the indices \<open>0..n-1\<close> and starts at 0.\<close>

definition obs_ex :: "nat \<Rightarrow> ObservationAbstract" where
  "obs_ex i = \<lparr>categoryName = ''OBSERVATION'', oid = i, name = [], otype = [],
              obs_sensor = Some 0, obs_landmark = None\<rparr>"

definition robot_ex :: "int RobotAbstract" where
  "robot_ex = \<lparr>categoryName = ''ROBOT'', oid = 4, name = [], otype = [],
     state = \<lparr>storage = REMOTE, x_local = [], arena = Some 0, ia = [7..<14]\<rparr>,
     slamMap = Some 0,
     pose = \<lparr>storage = REMOTE, x_local = [], arena = Some 0, ia = [7..<14]\<rparr>,
     sensors = [Some 0, Some 1]\<rparr>"

definition map_ex :: "int MapAbstract" where
  "map_ex = \<lparr>max_size = 33, current_size = 21, mean = (\<lambda>i. if i < 14 then int i else 0),
     landmarkIds = 6, landmarks = [], robots = [Some 0]\<rparr>"

definition sensor_ex :: "int SensorAbstract" where
  "sensor_ex = (SensorAbstract_empty (ia_range 0) 0)\<lparr>robot := Some 0\<rparr>"

definition sensor_remote_ex :: "int SensorAbstract" where
  "sensor_remote_ex = \<lparr>categoryName = ''SENSOR'', oid = 1, name = ''cam'', otype = [],
     state = \<lparr>storage = REMOTE, x_local = [], arena = Some 0, ia = [14..<21]\<rparr>,
     robot = Some 0, observations = [],
     pose = \<lparr>storage = REMOTE, x_local = [], arena = Some 0, ia = [14..<21]\<rparr>,
     ia_globalPose = [7..<21]\<rparr>"

definition world_ex :: "int world" where
  "world_ex = \<lparr>heap_maps = [map_ex], heap_robots = [robot_ex],
     heap_sensors = [sensor_ex, sensor_remote_ex],
     heap_landmarks = [], heap_observations = [obs_ex 5, obs_ex 3, obs_ex 5], cout = []\<rparr>"

definition quat_ex :: "int quatTools" where
  "quat_ex = \<lparr>compose = (\<lambda>G L. map2 (+) G L),
     d_global = (\<lambda>G L i j. if i = j then 1 else 0),
     d_local = (\<lambda>G L i j. if i = j then 2 else 0)\<rparr>"

definition mat_ex :: "nat \<Rightarrow> nat \<Rightarrow> int mat" where
  "mat_ex m n = \<lparr>size1 = m, size2 = n, elem = (\<lambda>i j. 9)\<rparr>"

text \<open>A sensor that already holds two observations.\<close>
definition sensor_obs_ex :: "int SensorAbstract" where
  "sensor_obs_ex = sensor_ex\<lparr>observations := [(3, Some 1), (5, Some 0)]\<rparr>"

definition world_obs_ex :: "int world" where
  "world_obs_ex = world_ex\<lparr>heap_sensors := [sensor_obs_ex, sensor_remote_ex]\<rparr>"

section \<open>Properties\<close>

subsection \<open>Auxiliary facts\<close>

lemma deref_Some_iff: "deref h (Some a) = Some x \<longleftrightarrow> a < length h \<and> x = h ! a"
  by (auto simp: deref_def)

lemma set_map_put: "set (map fst (map_put k v t)) = insert k (set (map fst t))"
proof (induction t)
  case Nil
  then show ?case by simp
next
  case (Cons a t)
  obtain k' v' where a: "a = (k', v')" by (cases a)
  show ?case unfolding a using Cons by (simp del: set_map) blast
qed

lemma sorted_map_put:
  "sorted_wrt (<) (map fst t) \<Longrightarrow> sorted_wrt (<) (map fst (map_put k v t))"
proof (induction t)
  case Nil
  then show ?case by simp
next
  case (Cons a t)
  obtain k' v' where a: "a = (k', v')" by (cases a)
  have "set (map fst (map_put k v t)) = insert k (set (map fst t))" by (rule set_map_put)
  with Cons a show ?case by (auto simp del: set_map)
qed

lemma map_of_map_put:
  "sorted_wrt (<) (map fst t) \<Longrightarrow> map_of (map_put k v t) = (map_of t)(k \<mapsto> v)"
  by (induction t) (auto simp: fun_eq_iff)

lemma list_all_map_put: "P (k, v) \<Longrightarrow> list_all P t \<Longrightarrow> list_all P (map_put k v t)"
  by (induction t) auto

lemma linkToObservation_step:
  assumes "deref (heap_sensors w) (Some this) = Some s"
    and "deref (heap_observations w) p = Some ob"
  shows "linkToObservation this p w =
     Some (w\<lparr>heap_sensors :=
       (heap_sensors w)[this := s\<lparr>observations := map_put (oid ob) p (observations s)\<rparr>]\<rparr>)"
  using assms by (simp add: linkToObservation_def)

lemma linkToObservations_inv:
  assumes "deref (heap_sensors w) (Some this) = Some s"
    and "sorted_wrt (<) (map fst (observations s))"
    and "keyed_by_id (heap_observations w) (observations s)"
    and "list_all (\<lambda>p. deref (heap_observations w) p \<noteq> None) ps"
  shows "\<exists>w' s'. linkToObservations this ps w = Some w' \<and>
      deref (heap_sensors w') (Some this) = Some s' \<and>
      heap_observations w' = heap_observations w \<and>
      sorted_wrt (<) (map fst (observations s')) \<and>
      keyed_by_id (heap_observations w') (observations s') \<and>
      map_of (observations s') = put_all (heap_observations w) ps (map_of (observations s))"
  using assms
proof (induction ps arbitrary: w s)
  case Nil
  then show ?case by simp
next
  case (Cons p ps)
  from Cons.prems(4) obtain ob where ob: "deref (heap_observations w) p = Some ob"
    by auto
  define s1 where "s1 = s\<lparr>observations := map_put (oid ob) p (observations s)\<rparr>"
  define w1 where "w1 = w\<lparr>heap_sensors := (heap_sensors w)[this := s1]\<rparr>"
  have step: "linkToObservation this p w = Some w1"
    unfolding w1_def s1_def by (rule linkToObservation_step [OF Cons.prems(1) ob])
  have lt: "this < length (heap_sensors w)"
    using Cons.prems(1) by (simp add: deref_Some_iff)
  have d1: "deref (heap_sensors w1) (Some this) = Some s1"
    using lt by (simp add: w1_def deref_Some_iff)
  have h1: "heap_observations w1 = heap_observations w" by (simp add: w1_def)
  have srt1: "sorted_wrt (<) (map fst (observations s1))"
    using Cons.prems(2) by (simp add: s1_def sorted_map_put)
  have key1: "keyed_by_id (heap_observations w1) (observations s1)"
    using Cons.prems(3) ob by (simp add: h1 s1_def keyed_by_id_def list_all_map_put)
  have ps1: "list_all (\<lambda>p. deref (heap_observations w1) p \<noteq> None) ps"
    using Cons.prems(4) by (simp add: h1)
  have m1: "map_of (observations s1) = (map_of (observations s))(oid ob \<mapsto> p)"
    using Cons.prems(2) by (simp add: s1_def map_of_map_put)
  from Cons.IH [OF d1 srt1 key1 ps1] obtain w' s' where
    r: "linkToObservations this ps w1 = Some w'"
      "deref (heap_sensors w') (Some this) = Some s'"
      "heap_observations w' = heap_observations w1"
      "sorted_wrt (<) (map fst (observations s'))"
      "keyed_by_id (heap_observations w') (observations s')"
      "map_of (observations s') = put_all (heap_observations w1) ps (map_of (observations s1))"
    by blast
  show ?case
    using r step ob by (simp add: h1 m1)
qed

subsection \<open>The local-pose constructors\<close>

text \<open>
  Claim C10. A sensor built by the empty constructor, by the mean-only constructor or by
  the full-Gaussian constructor reserves no cell of any map: its base is a LOCAL state of
  size 0 that points to no arena (the constructors do not even receive a map). Its
  \<^verbatim>\<open>ia_globalPose\<close> is the empty index array, of size 0, and it knows no robot.
\<close>
theorem local_constructors_reserve_nothing:
  "(storage (state (SensorAbstract_empty lia z)) = LOCAL \<and>
    arena (state (SensorAbstract_empty lia z)) = None \<and>
    x_local (state (SensorAbstract_empty lia z)) = [] \<and>
    ia_globalPose (SensorAbstract_empty lia z) = [] \<and>
    length (ia_globalPose (SensorAbstract_empty lia z)) = 0 \<and>
    robot (SensorAbstract_empty lia z) = None) \<and>
   (storage (state (SensorAbstract_vec7 lia z v)) = LOCAL \<and>
    arena (state (SensorAbstract_vec7 lia z v)) = None \<and>
    x_local (state (SensorAbstract_vec7 lia z v)) = [] \<and>
    ia_globalPose (SensorAbstract_vec7 lia z v) = [] \<and>
    length (ia_globalPose (SensorAbstract_vec7 lia z v)) = 0 \<and>
    robot (SensorAbstract_vec7 lia z v) = None) \<and>
   (storage (state (SensorAbstract_Gaussian lia z G)) = LOCAL \<and>
    arena (state (SensorAbstract_Gaussian lia z G)) = None \<and>
    x_local (state (SensorAbstract_Gaussian lia z G)) = [] \<and>
    ia_globalPose (SensorAbstract_Gaussian lia z G) = [] \<and>
    length (ia_globalPose (SensorAbstract_Gaussian lia z G)) = 0 \<and>
    robot (SensorAbstract_Gaussian lia z G) = None)"
  by (simp add: SensorAbstract_empty_def SensorAbstract_vec7_def SensorAbstract_Gaussian_def
      sensor_of_def MapObject_local_def Gaussian_size_def)

subsection \<open>The observation table\<close>

text \<open>
  Claim C9. \<^verbatim>\<open>linkToObservation\<close> stores the observation under its own id, replacing
  the observation linked under that id before: after any sequence of links of existing
  observations to a sensor, the table is the mapping in which each link bound the
  observation's id to the observation (the latest binding of an id standing), it holds
  one entry per id, and every entry is keyed by the id of the observation it holds.
\<close>
theorem linkToObservation_one_per_id:
  assumes "deref (heap_sensors w) (Some this) = Some s"
    and "sorted_wrt (<) (map fst (observations s))"
    and "keyed_by_id (heap_observations w) (observations s)"
    and "list_all (\<lambda>p. deref (heap_observations w) p \<noteq> None) ps"
  shows "\<exists>w' s'. linkToObservations this ps w = Some w' \<and>
      deref (heap_sensors w') (Some this) = Some s' \<and>
      distinct (map fst (observations s')) \<and>
      keyed_by_id (heap_observations w') (observations s') \<and>
      map_of (observations s') = put_all (heap_observations w) ps (map_of (observations s))"
proof -
  from linkToObservations_inv [OF assms] obtain w' s' where
    r: "linkToObservations this ps w = Some w'"
      "deref (heap_sensors w') (Some this) = Some s'"
      "sorted_wrt (<) (map fst (observations s'))"
      "keyed_by_id (heap_observations w') (observations s')"
      "map_of (observations s') = put_all (heap_observations w) ps (map_of (observations s))"
    by blast
  from r(3) have "distinct (map fst (observations s'))"
    by (simp add: strict_sorted_iff)
  with r show ?thesis by blast
qed

theorem linkToObservation_one_per_id_witness:
  "\<exists>w' s'. linkToObservations 0 [Some 0, Some 1, Some 2] world_ex = Some w' \<and>
      deref (heap_sensors w') (Some 0) = Some s' \<and>
      distinct (map fst (observations s')) \<and>
      keyed_by_id (heap_observations w') (observations s') \<and>
      map_of (observations s') = [5 \<mapsto> Some 2, 3 \<mapsto> Some 1]"
proof -
  have a: "deref (heap_sensors world_ex) (Some 0) = Some sensor_ex"
    by (simp add: deref_def world_ex_def)
  have b: "sorted_wrt (<) (map fst (observations sensor_ex))"
    by (simp add: sensor_ex_def SensorAbstract_empty_def sensor_of_def)
  have c: "keyed_by_id (heap_observations world_ex) (observations sensor_ex)"
    by (simp add: keyed_by_id_def sensor_ex_def SensorAbstract_empty_def sensor_of_def)
  have d: "list_all (\<lambda>p. deref (heap_observations world_ex) p \<noteq> None)
      [Some 0, Some 1, Some 2]"
    by (simp add: deref_def world_ex_def)
  have e: "put_all (heap_observations world_ex) [Some 0, Some 1, Some 2]
      (map_of (observations sensor_ex)) = [5 \<mapsto> Some 2, 3 \<mapsto> Some 1]"
    by (auto simp: deref_def world_ex_def obs_ex_def sensor_ex_def SensorAbstract_empty_def
        sensor_of_def fun_eq_iff)
  from linkToObservation_one_per_id [OF a b c d] show ?thesis
    unfolding e .
qed

subsection \<open>The diagnostic dump\<close>

text \<open>
  Claim C8. For a sensor whose robot is linked, the dump contains the sensor's category
  name and id, its pose and the id of its robot, and it contains the sensor's
  \<^verbatim>\<open>ia_globalPose\<close> (indeed any index array at all) exactly when the storage of the
  sensor's pose is REMOTE.
\<close>
theorem sensor_out_fields:
  assumes "deref (heap_robots w) (robot sen) = Some rob"
  shows "\<exists>out. sensor_out s sen w = Some (s @ out) \<and>
     Str (categoryName sen) \<in> set out \<and> Num (oid sen) \<in> set out \<and>
     OutGaussian (pose sen) \<in> set out \<and> Num (oid rob) \<in> set out \<and>
     ((OutIndArray (ia_globalPose sen) \<in> set out) = (storage (pose sen) = REMOTE)) \<and>
     ((\<exists>g. OutIndArray g \<in> set out) = (storage (pose sen) = REMOTE))"
  using assms by (auto simp: sensor_out_def Let_def)

theorem sensor_out_fields_witness:
  "deref (heap_robots world_ex) (robot sensor_ex) = Some robot_ex \<and>
   storage (pose sensor_ex) = LOCAL \<and>
   (\<exists>out. sensor_out [] sensor_ex world_ex = Some ([] @ out) \<and>
     Str (categoryName sensor_ex) \<in> set out \<and> Num (oid sensor_ex) \<in> set out \<and>
     OutGaussian (pose sensor_ex) \<in> set out \<and> Num (oid robot_ex) \<in> set out \<and>
     OutIndArray (ia_globalPose sensor_ex) \<notin> set out) \<and>
   deref (heap_robots world_ex) (robot sensor_remote_ex) = Some robot_ex \<and>
   storage (pose sensor_remote_ex) = REMOTE \<and>
   (\<exists>out. sensor_out [] sensor_remote_ex world_ex = Some ([] @ out) \<and>
     Str (categoryName sensor_remote_ex) \<in> set out \<and> Num (oid sensor_remote_ex) \<in> set out \<and>
     OutGaussian (pose sensor_remote_ex) \<in> set out \<and> Num (oid robot_ex) \<in> set out \<and>
     OutIndArray (ia_globalPose sensor_remote_ex) \<in> set out)"
proof -
  have a: "deref (heap_robots world_ex) (robot sensor_ex) = Some robot_ex"
    by (simp add: deref_def world_ex_def sensor_ex_def)
  have b: "deref (heap_robots world_ex) (robot sensor_remote_ex) = Some robot_ex"
    by (simp add: deref_def world_ex_def sensor_remote_ex_def)
  have l: "storage (pose sensor_ex) = LOCAL"
    by (simp add: sensor_ex_def SensorAbstract_empty_def sensor_of_def Gaussian_size_def)
  have r: "storage (pose sensor_remote_ex) = REMOTE"
    by (simp add: sensor_remote_ex_def)
  from sensor_out_fields [OF a, of "[]"] l
  have A: "\<exists>out. sensor_out [] sensor_ex world_ex = Some ([] @ out) \<and>
     Str (categoryName sensor_ex) \<in> set out \<and> Num (oid sensor_ex) \<in> set out \<and>
     OutGaussian (pose sensor_ex) \<in> set out \<and> Num (oid robot_ex) \<in> set out \<and>
     OutIndArray (ia_globalPose sensor_ex) \<notin> set out"
    by auto
  from sensor_out_fields [OF b, of "[]"] r
  have B: "\<exists>out. sensor_out [] sensor_remote_ex world_ex = Some ([] @ out) \<and>
     Str (categoryName sensor_remote_ex) \<in> set out \<and> Num (oid sensor_remote_ex) \<in> set out \<and>
     OutGaussian (pose sensor_remote_ex) \<in> set out \<and> Num (oid robot_ex) \<in> set out \<and>
     OutIndArray (ia_globalPose sensor_remote_ex) \<in> set out"
    by auto
  from a b l r A B show ?thesis by blast
qed

subsection \<open>The selectable constructor\<close>

text \<open>With \<^verbatim>\<open>inFilter = false\<close> the constructor reads nothing of the robot: the sensor
  is local, no map changes, and \<^verbatim>\<open>ia_globalPose\<close> is the index array of the sensor's own
  LOCAL pose.\<close>
lemma SensorAbstract_rob_False:
  "SensorAbstract_rob lia z rob False w =
     Some (sensor_of (MapObject_local lia z 0) (Gaussian_size lia z 7) (lia 7), w)"
  by (simp add: SensorAbstract_rob_def Gaussian_size_def)

lemma nth_upt_map: "map (\<lambda>i. [a..<a + n] ! i) [0..<n] = [a..<a + n]"
  by (rule nth_equalityI) simp_all

text \<open>With \<^verbatim>\<open>inFilter = true\<close> and room for 7 cells in the robot's map, the sensor
  reserves the next 7 cells, its pose is the REMOTE view of them, and \<^verbatim>\<open>ia_globalPose\<close>
  is the union of the robot's pose indices and the sensor's.\<close>
lemma SensorAbstract_rob_True:
  assumes "slamMap rob = Some a" and "deref (heap_maps w) (Some a) = Some m"
    and "unusedStates m 7"
  shows "\<exists>s. SensorAbstract_rob lia z rob True w =
       Some (s, w\<lparr>heap_maps := (heap_maps w)[a := m\<lparr>current_size := current_size m + 7\<rparr>]\<rparr>) \<and>
     storage (pose s) = REMOTE \<and>
     ia (pose s) = [current_size m..<current_size m + 7] \<and>
     ia (state s) = [current_size m..<current_size m + 7] \<and>
     ia_globalPose s = ia_union (ia (RobotAbstract.pose rob)) (ia (pose s)) \<and>
     set (ia_globalPose s) = set (ia (RobotAbstract.pose rob)) \<union> set (ia (pose s))"
  using assms
  by (simp add: SensorAbstract_rob_def MapObject_map_def Gaussian_remote_def ia_range_def
      sensor_of_def ia_union_def list_all_iff nth_upt_map)

text \<open>
  Claim C1. The claim says that a sensor built with \<^verbatim>\<open>inFilter = false\<close> has the robot's
  pose indices as its \<^verbatim>\<open>ia_globalPose\<close>, as the header documents the member. The
  constructor initialises it with \<^verbatim>\<open>pose.ia()\<close>, the indices of the sensor's own LOCAL
  pose: for a robot whose pose occupies the cells 7..13 of its map, the sensor built with
  \<^verbatim>\<open>inFilter = false\<close> has the indices 0..6 of its own 7-cell pose, none of which is an
  index of the robot's pose.
\<close>
theorem SensorAbstract_rob_not_in_filter_ia:
  "\<exists>s. SensorAbstract_rob (ia_range 0) 0 robot_ex False world_ex = Some (s, world_ex) \<and>
     storage (pose s) = LOCAL \<and>
     ia_globalPose s = ia (pose s) \<and>
     ia_globalPose s = [0, 1, 2, 3, 4, 5, 6] \<and>
     ia (RobotAbstract.pose robot_ex) = [7, 8, 9, 10, 11, 12, 13] \<and>
     ia_globalPose s \<noteq> ia (RobotAbstract.pose robot_ex)"
proof -
  have u: "[0..<7] = [0, 1, 2, 3, 4, 5, 6::nat]" by code_simp
  show ?thesis
    by (simp add: SensorAbstract_rob_False sensor_of_def Gaussian_size_def ia_range_def
        robot_ex_def u upt_rec_numeral)
qed

subsection \<open>The global pose and its Jacobian\<close>

lemma globalPose_via_means:
  "globalPose Q this g M w =
     (case pose_means w this of None \<Rightarrow> None
      | Some (s, r, sp) \<Rightarrow>
          if storage (pose s) = LOCAL
          then Some (composeFrames Q r sp, composeFrames_by_dglobal Q r sp M, w)
          else do {
            (g', PG_r, PG_s) \<leftarrow> Some (composeFrames_jac Q r sp);
            M1 \<leftarrow> project_assign M (0, 7) (0, 7) PG_r;
            M2 \<leftarrow> project_assign M1 (0, 7) (7, 14) PG_s;
            Some (g', M2, w) })"
  by (simp add: globalPose_def pose_means_def split: Option.bind_splits)

lemma globalPose_LOCAL:
  assumes "pose_means w this = Some (s, r, sp)" and "storage (pose s) = LOCAL"
  shows "globalPose Q this g M w =
     Some (composeFrames Q r sp, \<lparr>size1 = 7, size2 = 7, elem = d_global Q r sp\<rparr>, w)"
  using assms by (simp add: globalPose_via_means composeFrames_def composeFrames_by_dglobal_def)

lemma globalPose_REMOTE:
  assumes "pose_means w this = Some (s, r, sp)" and "storage (pose s) = REMOTE"
    and "7 \<le> size1 M" and "14 \<le> size2 M"
  shows "globalPose Q this g M w =
     Some (composeFrames Q r sp,
       M\<lparr>elem := \<lambda>i j. if i < 7 \<and> j < 7 then d_global Q r sp i j
                       else if i < 7 \<and> 7 \<le> j \<and> j < 14 then d_local Q r sp i (j - 7)
                       else elem M i j\<rparr>, w)"
  using assms
  by (auto simp: globalPose_via_means composeFrames_def composeFrames_jac_def
      project_assign_def fun_eq_iff)

text \<open>A REMOTE sensor pose and a matrix with fewer than 7 rows or 14 columns: the block
  assignment is out of range.\<close>
lemma globalPose_REMOTE_small:
  assumes "pose_means w this = Some (s, r, sp)" and "storage (pose s) = REMOTE"
    and "size1 M < 7 \<or> size2 M < 14"
  shows "globalPose Q this g M w = None"
  using assms
  by (auto simp: globalPose_via_means composeFrames_jac_def project_assign_def)

lemma pose_means_ex_0:
  "pose_means world_ex 0 = Some (sensor_ex, [7, 8, 9, 10, 11, 12, 13], [0, 0, 0, 0, 0, 0, 0])"
  by (simp add: pose_means_def world_ex_def deref_def sensor_ex_def SensorAbstract_empty_def
      sensor_of_def robot_ex_def Gaussian_x_def map_ex_def vec7_def Gaussian_size_def
      MapObject_local_def upt_rec_numeral eval_nat_numeral)

lemma pose_means_ex_1:
  "pose_means world_ex 1 =
     Some (sensor_remote_ex, [7, 8, 9, 10, 11, 12, 13], [0, 0, 0, 0, 0, 0, 0])"
  by (simp add: pose_means_def world_ex_def deref_def sensor_remote_ex_def
      robot_ex_def Gaussian_x_def map_ex_def vec7_def upt_rec_numeral)

lemma storage_sensor_ex: "storage (pose sensor_ex) = LOCAL"
  by (simp add: sensor_ex_def SensorAbstract_empty_def sensor_of_def Gaussian_size_def)

lemma storage_sensor_remote_ex: "storage (pose sensor_remote_ex) = REMOTE"
  by (simp add: sensor_remote_ex_def)

text \<open>
  Claim C2. Which Jacobian \<^verbatim>\<open>globalPose\<close> returns is decided by the storage of the
  sensor's pose alone. LOCAL: the output is one 7x7 block, the Jacobian of the composed
  pose with respect to the robot's pose. REMOTE: the output is the 7x14 block of rows 0-6
  and columns 0-13 of the matrix the caller passed (which has at least these rows and
  columns and keeps its sizes and its other cells): columns 0-6 hold the Jacobian with
  respect to the robot's pose, columns 7-13 the Jacobian with respect to the sensor's.
\<close>
theorem globalPose_jacobian_by_storage:
  assumes "pose_means w this = Some (s, r, sp)"
  shows "(storage (pose s) = LOCAL \<longrightarrow>
           (\<exists>J. globalPose Q this g M w = Some (composeFrames Q r sp, J, w) \<and>
                size1 J = 7 \<and> size2 J = 7 \<and>
                (\<forall>i<7. \<forall>j<7. elem J i j = d_global Q r sp i j))) \<and>
         (storage (pose s) = REMOTE \<and> 7 \<le> size1 M \<and> 14 \<le> size2 M \<longrightarrow>
           (\<exists>J. globalPose Q this g M w = Some (composeFrames Q r sp, J, w) \<and>
                size1 J = size1 M \<and> size2 J = size2 M \<and>
                (\<forall>i<7. \<forall>j<7. elem J i j = d_global Q r sp i j \<and>
                                elem J i (7 + j) = d_local Q r sp i j) \<and>
                (\<forall>i j. \<not> (i < 7 \<and> j < 14) \<longrightarrow> elem J i j = elem M i j)))"
proof (intro conjI impI)
  assume "storage (pose s) = LOCAL"
  from globalPose_LOCAL [OF assms this] show
    "\<exists>J. globalPose Q this g M w = Some (composeFrames Q r sp, J, w) \<and>
        size1 J = 7 \<and> size2 J = 7 \<and> (\<forall>i<7. \<forall>j<7. elem J i j = d_global Q r sp i j)"
    by simp
next
  assume a: "storage (pose s) = REMOTE \<and> 7 \<le> size1 M \<and> 14 \<le> size2 M"
  then have "globalPose Q this g M w =
     Some (composeFrames Q r sp,
       M\<lparr>elem := \<lambda>i j. if i < 7 \<and> j < 7 then d_global Q r sp i j
                       else if i < 7 \<and> 7 \<le> j \<and> j < 14 then d_local Q r sp i (j - 7)
                       else elem M i j\<rparr>, w)"
    using globalPose_REMOTE [OF assms] by blast
  then show
    "\<exists>J. globalPose Q this g M w = Some (composeFrames Q r sp, J, w) \<and>
        size1 J = size1 M \<and> size2 J = size2 M \<and>
        (\<forall>i<7. \<forall>j<7. elem J i j = d_global Q r sp i j \<and>
                        elem J i (7 + j) = d_local Q r sp i j) \<and>
        (\<forall>i j. \<not> (i < 7 \<and> j < 14) \<longrightarrow> elem J i j = elem M i j)"
    by auto
qed

theorem globalPose_jacobian_by_storage_witness:
  "pose_means world_ex 0 = Some (sensor_ex, [7, 8, 9, 10, 11, 12, 13], [0, 0, 0, 0, 0, 0, 0]) \<and>
   storage (pose sensor_ex) = LOCAL \<and>
   (\<exists>J. globalPose quat_ex 0 [] (mat_ex 0 0) world_ex =
          Some ([7, 8, 9, 10, 11, 12, 13], J, world_ex) \<and>
        size1 J = 7 \<and> size2 J = 7 \<and> elem J 2 2 = 1 \<and> elem J 2 3 = 0) \<and>
   pose_means world_ex 1 =
     Some (sensor_remote_ex, [7, 8, 9, 10, 11, 12, 13], [0, 0, 0, 0, 0, 0, 0]) \<and>
   storage (pose sensor_remote_ex) = REMOTE \<and>
   (\<exists>J. globalPose quat_ex 1 [] (mat_ex 7 14) world_ex =
          Some ([7, 8, 9, 10, 11, 12, 13], J, world_ex) \<and>
        size1 J = 7 \<and> size2 J = 14 \<and> elem J 2 2 = 1 \<and> elem J 2 9 = 2 \<and> elem J 2 3 = 0)"
proof -
  note l = storage_sensor_ex and r = storage_sensor_remote_ex
  have c: "composeFrames quat_ex [7, 8, 9, 10, 11, 12, 13] [0, 0, 0, 0, 0, 0, 0]
      = [7, 8, 9, 10, 11, 12, 13]"
    by (simp add: composeFrames_def quat_ex_def)
  have sz: "7 \<le> size1 (mat_ex 7 14) \<and> 14 \<le> size2 (mat_ex 7 14)"
    by (simp add: mat_ex_def)
  from globalPose_jacobian_by_storage [OF pose_means_ex_0, of quat_ex "[]" "mat_ex 0 0"] l
  have A: "\<exists>J. globalPose quat_ex 0 [] (mat_ex 0 0) world_ex =
          Some ([7, 8, 9, 10, 11, 12, 13], J, world_ex) \<and>
        size1 J = 7 \<and> size2 J = 7 \<and> elem J 2 2 = 1 \<and> elem J 2 3 = 0"
    unfolding c by (auto simp: quat_ex_def)
  from globalPose_jacobian_by_storage [OF pose_means_ex_1, of quat_ex "[]" "mat_ex 7 14"] r sz
  obtain J where J: "globalPose quat_ex 1 [] (mat_ex 7 14) world_ex =
          Some ([7, 8, 9, 10, 11, 12, 13], J, world_ex)"
      "size1 J = size1 (mat_ex 7 14)" "size2 J = size2 (mat_ex 7 14)"
      "\<forall>i<7. \<forall>j<7.
          elem J i j = d_global quat_ex [7, 8, 9, 10, 11, 12, 13] [0, 0, 0, 0, 0, 0, 0] i j \<and>
          elem J i (7 + j) = d_local quat_ex [7, 8, 9, 10, 11, 12, 13] [0, 0, 0, 0, 0, 0, 0] i j"
    unfolding c by blast
  from J(4) [rule_format, of 2 2] J(4) [rule_format, of 2 3]
  have "elem J 2 2 = 1 \<and> elem J 2 9 = 2 \<and> elem J 2 3 = 0"
    by (simp add: quat_ex_def)
  with J(1-3) have B: "\<exists>J. globalPose quat_ex 1 [] (mat_ex 7 14) world_ex =
          Some ([7, 8, 9, 10, 11, 12, 13], J, world_ex) \<and>
        size1 J = 7 \<and> size2 J = 14 \<and> elem J 2 2 = 1 \<and> elem J 2 9 = 2 \<and> elem J 2 3 = 0"
    by (simp add: mat_ex_def)
  from pose_means_ex_0 pose_means_ex_1 l r A B show ?thesis by blast
qed

text \<open>
  Claim C4. For a sensor with a REMOTE pose, the left 7 columns of the Jacobian that
  \<^verbatim>\<open>globalPose\<close> writes are, cell by cell, the 7x7 Jacobian that the LOCAL branch
  returns for a sensor with the same robot pose mean and the same sensor pose mean, and
  the two calls return the same global pose.
\<close>
theorem globalPose_REMOTE_left_columns:
  assumes "pose_means wa a = Some (sa, r, sp)" and "storage (pose sa) = REMOTE"
    and "7 \<le> size1 Ma" and "14 \<le> size2 Ma"
    and "pose_means wb b = Some (sb, r, sp)" and "storage (pose sb) = LOCAL"
  shows "\<exists>gp Ja Jb.
      globalPose Q a ga Ma wa = Some (gp, Ja, wa) \<and>
      globalPose Q b gb Mb wb = Some (gp, Jb, wb) \<and>
      size1 Jb = 7 \<and> size2 Jb = 7 \<and>
      (\<forall>i<7. \<forall>j<7. elem Ja i j = elem Jb i j)"
  using globalPose_REMOTE [OF assms(1-4), of Q ga] globalPose_LOCAL [OF assms(5,6), of Q gb Mb]
  by simp

theorem globalPose_REMOTE_left_columns_witness:
  "\<exists>gp Ja Jb.
      globalPose quat_ex 1 [] (mat_ex 7 14) world_ex = Some (gp, Ja, world_ex) \<and>
      globalPose quat_ex 0 [] (mat_ex 7 7) world_ex = Some (gp, Jb, world_ex) \<and>
      size1 Jb = 7 \<and> size2 Jb = 7 \<and>
      (\<forall>i<7. \<forall>j<7. elem Ja i j = elem Jb i j)"
proof -
  have s1: "7 \<le> size1 (mat_ex 7 14)" and s2: "14 \<le> size2 (mat_ex 7 14)"
    by (simp_all add: mat_ex_def)
  show ?thesis
    by (rule globalPose_REMOTE_left_columns
        [OF pose_means_ex_1 storage_sensor_remote_ex s1 s2 pose_means_ex_0 storage_sensor_ex])
qed

text \<open>
  Claim C7. \<^verbatim>\<open>globalPose\<close> returns the store it was called in: the robot's pose, the
  sensor's pose, the sensor's index sets and the arena are unchanged. Called again in that
  store, with the same arguments or with the values it has just returned, it returns the
  same global pose and the same Jacobian.
\<close>
theorem globalPose_pure:
  assumes "pose_means w this = Some (s, r, sp)"
    and "storage (pose s) = REMOTE \<longrightarrow> 7 \<le> size1 M \<and> 14 \<le> size2 M"
  shows "\<exists>g' M' w'. globalPose Q this g M w = Some (g', M', w') \<and> w' = w \<and>
      heap_maps w' = heap_maps w \<and> heap_robots w' = heap_robots w \<and>
      heap_sensors w' = heap_sensors w \<and>
      globalPose Q this g M w' = Some (g', M', w') \<and>
      globalPose Q this g' M' w' = Some (g', M', w')"
proof (cases "storage (pose s)")
  case LOCAL
  then show ?thesis using globalPose_LOCAL [OF assms(1)] by simp
next
  case REMOTE
  with assms(2) have sz: "7 \<le> size1 M" "14 \<le> size2 M" by simp_all
  let ?M' = "M\<lparr>elem := \<lambda>i j. if i < 7 \<and> j < 7 then d_global Q r sp i j
                       else if i < 7 \<and> 7 \<le> j \<and> j < 14 then d_local Q r sp i (j - 7)
                       else elem M i j\<rparr>"
  have 1: "globalPose Q this g M w = Some (composeFrames Q r sp, ?M', w)"
    by (rule globalPose_REMOTE [OF assms(1) REMOTE sz])
  have sz': "7 \<le> size1 ?M'" "14 \<le> size2 ?M'" using sz by simp_all
  have 2: "globalPose Q this (composeFrames Q r sp) ?M' w = Some (composeFrames Q r sp, ?M', w)"
    using globalPose_REMOTE [OF assms(1) REMOTE sz', of Q "composeFrames Q r sp"]
    by (simp add: fun_eq_iff)
  from 1 2 show ?thesis by simp
qed

theorem globalPose_pure_witness:
  "storage (pose sensor_remote_ex) = REMOTE \<and>
   7 \<le> size1 (mat_ex 7 14) \<and> 14 \<le> size2 (mat_ex 7 14) \<and>
   (\<exists>g' M' w'. globalPose quat_ex 1 [] (mat_ex 7 14) world_ex = Some (g', M', w') \<and>
      w' = world_ex \<and>
      heap_maps w' = heap_maps world_ex \<and> heap_robots w' = heap_robots world_ex \<and>
      heap_sensors w' = heap_sensors world_ex \<and>
      globalPose quat_ex 1 [] (mat_ex 7 14) w' = Some (g', M', w') \<and>
      globalPose quat_ex 1 g' M' w' = Some (g', M', w'))"
proof -
  have sz: "7 \<le> size1 (mat_ex 7 14) \<and> 14 \<le> size2 (mat_ex 7 14)"
    by (simp add: mat_ex_def)
  from globalPose_pure [OF pose_means_ex_1, of "mat_ex 7 14" quat_ex "[]"] sz
    storage_sensor_remote_ex
  show ?thesis by blast
qed

subsection \<open>Processing raw data\<close>

text \<open>The loop of \<^verbatim>\<open>observeKnownLmks\<close> writes one line for each observation of
  the table and changes nothing else; it fails on a null entry.\<close>
lemma exploring_eq:
  "exploring t w =
     (case observed w t of None \<Rightarrow> None
      | Some obs \<Rightarrow> Some (w\<lparr>cout := cout w @ explored obs\<rparr>))"
proof (induction t arbitrary: w)
  case Nil
  then show ?case by (simp add: observed_def explored_def)
next
  case (Cons e t)
  obtain k p where e: "e = (k, p)" by (cases e)
  show ?case
    by (simp add: e Cons observed_def explored_def split: option.splits)
qed

lemma newLandmark_eq:
  assumes "deref (heap_maps w) (Some a) = Some m" and "unusedStates m n"
  shows "newLandmark n (Some a) w =
     Some (Some (length (heap_landmarks w)),
       w\<lparr>heap_maps := (heap_maps w)[a := m\<lparr>current_size := current_size m + n,
            landmarkIds := Suc (landmarkIds m),
            landmarks := map_put (landmarkIds m) (Some (length (heap_landmarks w))) (landmarks m)\<rparr>],
         heap_landmarks := heap_landmarks w @
           [\<lparr>categoryName = [], oid = landmarkIds m, name = [], otype = [],
             state = \<lparr>storage = REMOTE, x_local = [], arena = Some a,
                      ia = [current_size m..<current_size m + n]\<rparr>,
             lmk_slamMap = Some a\<rparr>]\<rparr>)"
proof -
  from assms(1) have a: "a < length (heap_maps w)" and m: "heap_maps w ! a = m"
    by (simp_all add: deref_Some_iff)
  show ?thesis
    using a assms(2)
    by (simp add: newLandmark_def new_LandmarkAnchoredHomogeneousPoint_def MapObject_map_def
        getId_def upd_landmark_def linkToLandmark_def linkToMap_def deref_def m
        ObjectAbstract_new_def ia_range_def nth_append)
qed

lemma map_of_map_put_same: "map_of (map_put k v t) k = Some v"
  by (induction t) auto

lemma deref_append: "deref h p = Some x \<Longrightarrow> deref (h @ ys) p = Some x"
  by (cases p) (auto simp: deref_def nth_append split: if_splits)

lemma newObservation_eq:
  assumes "deref (heap_sensors w) (Some sa) = Some s"
    and "deref (heap_landmarks w) lp = Some l"
  shows "newObservation (Some sa) lp w =
     Some (w\<lparr>heap_observations := heap_observations w @
               [\<lparr>categoryName = ''OBSERVATION'', oid = oid l, name = [], otype = [],
                 obs_sensor = Some sa, obs_landmark = lp\<rparr>],
             heap_sensors := (heap_sensors w)[sa := s\<lparr>observations :=
               map_put (oid l) (Some (length (heap_observations w))) (observations s)\<rparr>]\<rparr>)"
  using assms by (simp add: newObservation_def linkToObservation_def deref_def)

lemma newObservation_tracks:
  assumes s: "deref (heap_sensors w) (Some sa) = Some s"
    and l: "deref (heap_landmarks w) lp = Some l"
    and w': "newObservation (Some sa) lp w = Some w'"
  shows "tracks w' sa (oid l) lp"
    and "tracks w sb (oid l) lp \<Longrightarrow> tracks w' sb (oid l) lp"
proof -
  note eq = w' [unfolded newObservation_eq [OF s l], simplified]
  from s have lt: "sa < length (heap_sensors w)" by (simp add: deref_Some_iff)
  show "tracks w' sa (oid l) lp"
    using lt by (simp add: eq [symmetric] tracks_def deref_def map_of_map_put_same)
  assume t: "tracks w sb (oid l) lp"
  show "tracks w' sb (oid l) lp"
  proof (cases "sb = sa")
    case True
    then show ?thesis
      using lt by (simp add: eq [symmetric] tracks_def deref_def map_of_map_put_same)
  next
    case False
    from t obtain s2 op ob where
      1: "deref (heap_sensors w) (Some sb) = Some s2"
      and 2: "map_of (observations s2) (oid l) = Some op"
      and 3: "deref (heap_observations w) op = Some ob"
      and 4: "oid ob = oid l \<and> obs_landmark ob = lp \<and> obs_sensor ob = Some sb"
      by (auto simp: tracks_def split: option.splits)
    from 1 False have d1: "deref (heap_sensors w') (Some sb) = Some s2"
      by (simp add: eq [symmetric] deref_def split: if_splits)
    from deref_append [OF 3] have d3: "deref (heap_observations w') op = Some ob"
      by (simp add: eq [symmetric])
    show ?thesis using d1 2 d3 4 by (simp add: tracks_def)
  qed
qed

lemma newObservation_frame:
  assumes s: "deref (heap_sensors w) (Some sa) = Some s"
    and l: "deref (heap_landmarks w) lp = Some l"
    and w': "newObservation (Some sa) lp w = Some w'"
  shows "heap_maps w' = heap_maps w \<and> heap_robots w' = heap_robots w \<and>
     heap_landmarks w' = heap_landmarks w \<and> cout w' = cout w \<and>
     length (heap_sensors w') = length (heap_sensors w)"
  using w' [unfolded newObservation_eq [OF s l], simplified] by auto

lemma for_each_newObservation:
  assumes "list_all (\<lambda>p. deref (heap_sensors w) p \<noteq> None) ss"
    and "deref (heap_landmarks w) lp = Some l"
  shows "\<exists>w'. for_each (\<lambda>senPtr. newObservation senPtr lp) ss w = Some w' \<and>
     heap_maps w' = heap_maps w \<and> heap_robots w' = heap_robots w \<and>
     heap_landmarks w' = heap_landmarks w \<and> cout w' = cout w \<and>
     length (heap_sensors w') = length (heap_sensors w) \<and>
     (\<forall>sb. Some sb \<in> set ss \<or> tracks w sb (oid l) lp \<longrightarrow> tracks w' sb (oid l) lp)"
  using assms
proof (induction ss arbitrary: w)
  case Nil
  then show ?case by simp
next
  case (Cons p ss)
  from Cons.prems(1) obtain sa s where p: "p = Some sa"
    and s: "deref (heap_sensors w) (Some sa) = Some s"
    by (cases p) (auto simp: deref_def)
  note l = Cons.prems(2)
  obtain w1 where w1: "newObservation (Some sa) lp w = Some w1"
    using newObservation_eq [OF s l] by blast
  note fr = newObservation_frame [OF s l w1]
  have v1: "list_all (\<lambda>p. deref (heap_sensors w1) p \<noteq> None) ss"
    using Cons.prems(1) fr by (auto simp: list_all_iff deref_def split: option.splits)
  have l1: "deref (heap_landmarks w1) lp = Some l" using l fr by simp
  from Cons.IH [OF v1 l1] obtain w' where
    r: "for_each (\<lambda>senPtr. newObservation senPtr lp) ss w1 = Some w'"
      "heap_maps w' = heap_maps w1" "heap_robots w' = heap_robots w1"
      "heap_landmarks w' = heap_landmarks w1" "cout w' = cout w1"
      "length (heap_sensors w') = length (heap_sensors w1)"
      "\<forall>sb. Some sb \<in> set ss \<or> tracks w1 sb (oid l) lp \<longrightarrow> tracks w' sb (oid l) lp"
    by blast
  have t: "\<forall>sb. Some sb \<in> set (p # ss) \<or> tracks w sb (oid l) lp \<longrightarrow> tracks w' sb (oid l) lp"
    using r(7) newObservation_tracks [OF s l w1] p by auto
  show ?case
    using r(1-6) fr t w1 by (simp add: p)
qed

lemma discoverNewLmks_via_map:
  "discoverNewLmks n this w =
     (case sensor_map w this of None \<Rightarrow> None
      | Some (s, a, m) \<Rightarrow>
         if unusedStates m n
         then do {
           (lmkPtr, w1) \<leftarrow> newLandmark n (Some a) w;
           l \<leftarrow> deref (heap_landmarks w1) lmkPtr;
           addObservations (Some a) lmkPtr
             (w1\<lparr>cout := cout w1 @ [Str ''    added lmk: '', Num (oid l), Endl]\<rparr>) }
         else Some w)"
  by (auto simp: discoverNewLmks_def sensor_map_def deref_def
      split: Option.bind_splits option.splits)

lemma discoverNewLmks_full:
  assumes "sensor_map w this = Some (s, a, m)" and "\<not> unusedStates m n"
  shows "discoverNewLmks n this w = Some w"
  using assms by (simp add: discoverNewLmks_via_map)

lemma discoverNewLmks_room:
  assumes sm: "sensor_map w this = Some (s, a, m)" and room: "unusedStates m n"
    and ss: "map_sensors w m = Some ss"
    and valid: "list_all (\<lambda>p. deref (heap_sensors w) p \<noteq> None) ss"
  shows "\<exists>w' l m'. discoverNewLmks n this w = Some w' \<and>
     heap_landmarks w' = heap_landmarks w @ [l] \<and>
     oid l = landmarkIds m \<and> lmk_slamMap l = Some a \<and>
     storage (state l) = REMOTE \<and> ia (state l) = [current_size m..<current_size m + n] \<and>
     deref (heap_maps w') (Some a) = Some m' \<and>
     current_size m' = current_size m + n \<and> landmarkIds m' = Suc (landmarkIds m) \<and>
     map_of (landmarks m') (landmarkIds m) = Some (Some (length (heap_landmarks w))) \<and>
     cout w' = cout w @ [Str ''    added lmk: '', Num (landmarkIds m), Endl] \<and>
     (\<forall>sb. Some sb \<in> set ss \<longrightarrow>
        tracks w' sb (landmarkIds m) (Some (length (heap_landmarks w))))"
proof -
  from sm have dm: "deref (heap_maps w) (Some a) = Some m"
    by (auto simp: sensor_map_def split: Option.bind_splits)
  then have a: "a < length (heap_maps w)" by (simp add: deref_Some_iff)
  define L where "L = length (heap_landmarks w)"
  define m' where "m' = m\<lparr>current_size := current_size m + n,
     landmarkIds := Suc (landmarkIds m),
     landmarks := map_put (landmarkIds m) (Some L) (landmarks m)\<rparr>"
  define l :: "'a LandmarkAbstract"
    where "l = \<lparr>categoryName = [], oid = landmarkIds m, name = [], otype = [],
     state = \<lparr>storage = REMOTE, x_local = [], arena = Some a,
              ia = [current_size m..<current_size m + n]\<rparr>,
     lmk_slamMap = Some a\<rparr>"
  define w1 where "w1 = w\<lparr>heap_maps := (heap_maps w)[a := m'],
     heap_landmarks := heap_landmarks w @ [l]\<rparr>"
  define w2 where "w2 = w1\<lparr>cout := cout w1 @ [Str ''    added lmk: '', Num (oid l), Endl]\<rparr>"
  have nl: "newLandmark n (Some a) w = Some (Some L, w1)"
    unfolding w1_def m'_def l_def L_def by (rule newLandmark_eq [OF dm room])
  have dl1: "deref (heap_landmarks w1) (Some L) = Some l"
    by (simp add: w1_def L_def deref_def)
  have dl2: "deref (heap_landmarks w2) (Some L) = Some l"
    by (simp add: w2_def w1_def L_def deref_def)
  have dm2: "deref (heap_maps w2) (Some a) = Some m'"
    using a by (simp add: w2_def w1_def deref_def)
  have ss2: "map_sensors w2 m' = Some ss"
    using ss by (simp add: map_sensors_def w2_def w1_def m'_def)
  have valid2: "list_all (\<lambda>p. deref (heap_sensors w2) p \<noteq> None) ss"
    using valid by (simp add: w2_def w1_def)
  from for_each_newObservation [OF valid2 dl2] obtain w' where
    r: "for_each (\<lambda>senPtr. newObservation senPtr (Some L)) ss w2 = Some w'"
      "heap_maps w' = heap_maps w2" "heap_robots w' = heap_robots w2"
      "heap_landmarks w' = heap_landmarks w2" "cout w' = cout w2"
      "\<forall>sb. Some sb \<in> set ss \<or> tracks w2 sb (oid l) (Some L) \<longrightarrow> tracks w' sb (oid l) (Some L)"
    by blast
  have ao: "addObservations (Some a) (Some L) w2 = Some w'"
    using r(1) by (simp add: addObservations_def dm2 ss2)
  have run: "discoverNewLmks n this w = Some w'"
    using ao by (simp add: discoverNewLmks_via_map sm room nl dl1 w2_def)
  have "heap_landmarks w' = heap_landmarks w @ [l]"
    by (simp add: r(4) w2_def w1_def)
  moreover have "deref (heap_maps w') (Some a) = Some m'"
    using dm2 by (simp add: r(2))
  moreover have "map_of (landmarks m') (landmarkIds m) = Some (Some L)"
    by (simp add: m'_def map_of_map_put_same)
  moreover have "cout w' = cout w @ [Str ''    added lmk: '', Num (landmarkIds m), Endl]"
    by (simp add: r(5) w2_def w1_def l_def)
  moreover have "\<forall>sb. Some sb \<in> set ss \<longrightarrow> tracks w' sb (landmarkIds m) (Some L)"
    using r(6) by (simp add: l_def)
  ultimately show ?thesis
    using run unfolding L_def [symmetric]
    by (intro exI [of _ w'] exI [of _ l] exI [of _ m']) (simp add: l_def m'_def)
qed

lemma observeKnownLmks_eq:
  assumes "deref (heap_sensors w) (Some this) = Some s"
  shows "observeKnownLmks this w =
     (case observed w (observations s) of None \<Rightarrow> None
      | Some obs \<Rightarrow> Some (w\<lparr>cout := cout w @ explored obs\<rparr>))"
  using assms by (simp add: observeKnownLmks_def exploring_eq)

lemma observed_length: "observed w t = Some obs \<Longrightarrow> length obs = length t"
  unfolding observed_def
proof (induction t arbitrary: obs)
  case Nil
  then show ?case by simp
next
  case (Cons e t)
  then show ?case by (auto split: option.splits)
qed

lemma sensor_map_cout: "sensor_map (w\<lparr>cout := c\<rparr>) this = sensor_map w this"
  by (simp add: sensor_map_def)

lemma map_sensors_cout: "map_sensors (w\<lparr>cout := c\<rparr>) m = map_sensors w m"
  by (simp add: map_sensors_def)

lemma newObservation_Some_frame:
  "newObservation p lp w = Some w' \<Longrightarrow>
     heap_landmarks w' = heap_landmarks w \<and> cout w' = cout w \<and>
     heap_maps w' = heap_maps w \<and> heap_robots w' = heap_robots w"
  by (auto simp: newObservation_def linkToObservation_def
      split: option.splits Option.bind_splits)

lemma for_each_frame:
  assumes "\<And>x w w'. f x w = Some w' \<Longrightarrow> g w' = g w"
  shows "for_each f xs w = Some w' \<Longrightarrow> g w' = g w"
proof (induction xs arbitrary: w)
  case Nil
  then show ?case by simp
next
  case (Cons x xs)
  then show ?case using assms by (auto split: option.splits)
qed

lemma addObservations_Some_frame:
  assumes "addObservations mp lp w = Some w'"
  shows "heap_landmarks w' = heap_landmarks w" and "cout w' = cout w"
    and "heap_maps w' = heap_maps w"
proof -
  from assms obtain ss where
    fe: "for_each (\<lambda>senPtr. newObservation senPtr lp) ss w = Some w'"
    by (auto simp: addObservations_def split: Option.bind_splits)
  show "heap_landmarks w' = heap_landmarks w"
    by (rule for_each_frame [OF _ fe]) (simp add: newObservation_Some_frame)
  show "cout w' = cout w"
    by (rule for_each_frame [OF _ fe]) (simp add: newObservation_Some_frame)
  show "heap_maps w' = heap_maps w"
    by (rule for_each_frame [OF _ fe]) (simp add: newObservation_Some_frame)
qed

lemma discoverNewLmks_Some:
  assumes "discoverNewLmks n this w = Some w'"
  shows "\<exists>s a m. sensor_map w this = Some (s, a, m) \<and>
     (if unusedStates m n
      then (\<exists>l. heap_landmarks w' = heap_landmarks w @ [l]) \<and>
           cout w' = cout w @ [Str ''    added lmk: '', Num (landmarkIds m), Endl]
      else w' = w)"
proof -
  from assms obtain s a m where sm: "sensor_map w this = Some (s, a, m)"
    by (auto simp: discoverNewLmks_via_map split: option.splits)
  show ?thesis
  proof (cases "unusedStates m n")
    case False
    with assms sm show ?thesis by (simp add: discoverNewLmks_via_map)
  next
    case True
    from sm have dm: "deref (heap_maps w) (Some a) = Some m"
      by (auto simp: sensor_map_def split: Option.bind_splits)
    note nl = newLandmark_eq [OF dm True]
    from assms have ao: "addObservations (Some a) (Some (length (heap_landmarks w)))
       (w\<lparr>heap_maps := (heap_maps w)[a := m\<lparr>current_size := current_size m + n,
            landmarkIds := Suc (landmarkIds m),
            landmarks := map_put (landmarkIds m) (Some (length (heap_landmarks w))) (landmarks m)\<rparr>],
         heap_landmarks := heap_landmarks w @
           [\<lparr>categoryName = [], oid = landmarkIds m, name = [], otype = [],
             state = \<lparr>storage = REMOTE, x_local = [], arena = Some a,
                      ia = [current_size m..<current_size m + n]\<rparr>,
             lmk_slamMap = Some a\<rparr>],
         cout := cout w @ [Str ''    added lmk: '', Num (landmarkIds m), Endl]\<rparr>) = Some w'"
      by (simp add: discoverNewLmks_via_map sm True nl deref_def)
    from addObservations_Some_frame(1,2) [OF ao] sm True show ?thesis by simp
  qed
qed

text \<open>What a \<^verbatim>\<open>discoverNewLmks\<close> that returns has done, by the answer of
  \<^verbatim>\<open>unusedStates\<close>.\<close>
lemma discoverNewLmks_Some_exact:
  assumes "discoverNewLmks n this w = Some w'"
  shows "\<exists>s a m. sensor_map w this = Some (s, a, m) \<and>
     (if unusedStates m n
      then (\<exists>l m'. heap_landmarks w' = heap_landmarks w @ [l] \<and>
              oid l = landmarkIds m \<and>
              ia (state l) = [current_size m..<current_size m + n] \<and>
              deref (heap_maps w') (Some a) = Some m' \<and>
              current_size m' = current_size m + n) \<and>
           cout w' = cout w @ [Str ''    added lmk: '', Num (landmarkIds m), Endl]
      else w' = w)"
proof -
  from assms obtain s a m where sm: "sensor_map w this = Some (s, a, m)"
    by (auto simp: discoverNewLmks_via_map split: option.splits)
  show ?thesis
  proof (cases "unusedStates m n")
    case False
    with assms sm show ?thesis by (simp add: discoverNewLmks_via_map)
  next
    case True
    from sm have dm: "deref (heap_maps w) (Some a) = Some m"
      by (auto simp: sensor_map_def split: Option.bind_splits)
    then have a: "a < length (heap_maps w)" by (simp add: deref_Some_iff)
    note nl = newLandmark_eq [OF dm True]
    from assms have ao: "addObservations (Some a) (Some (length (heap_landmarks w)))
       (w\<lparr>heap_maps := (heap_maps w)[a := m\<lparr>current_size := current_size m + n,
            landmarkIds := Suc (landmarkIds m),
            landmarks := map_put (landmarkIds m) (Some (length (heap_landmarks w))) (landmarks m)\<rparr>],
         heap_landmarks := heap_landmarks w @
           [\<lparr>categoryName = [], oid = landmarkIds m, name = [], otype = [],
             state = \<lparr>storage = REMOTE, x_local = [], arena = Some a,
                      ia = [current_size m..<current_size m + n]\<rparr>,
             lmk_slamMap = Some a\<rparr>],
         cout := cout w @ [Str ''    added lmk: '', Num (landmarkIds m), Endl]\<rparr>) = Some w'"
      by (simp add: discoverNewLmks_via_map sm True nl deref_def)
    from addObservations_Some_frame [OF ao] a sm True show ?thesis
      by (simp add: deref_def)
  qed
qed

lemma sensor_map_sensor: "sensor_map w this = Some (s, a, m) \<Longrightarrow>
    deref (heap_sensors w) (Some this) = Some s"
  by (auto simp: sensor_map_def split: Option.bind_splits)

lemma processRaw_eq:
  assumes "deref (heap_sensors w) (Some this) = Some s"
    and "observed w (observations s) = Some obs"
  shows "processRaw n this w = discoverNewLmks n this (w\<lparr>cout := cout w @ explored obs\<rparr>)"
  using assms by (simp add: processRaw_def observeKnownLmks_eq)

text \<open>The concrete store satisfies the premises of the theorems below.\<close>
lemma sensor_map_ex: "sensor_map world_obs_ex 0 = Some (sensor_obs_ex, 0, map_ex)"
  by (simp add: sensor_map_def world_obs_ex_def world_ex_def deref_def sensor_obs_ex_def
      sensor_ex_def robot_ex_def)

lemma observed_ex:
  "observed world_obs_ex (observations sensor_obs_ex) = Some [obs_ex 3, obs_ex 5]"
  by (simp add: observed_def world_obs_ex_def world_ex_def deref_def sensor_obs_ex_def)

lemma map_sensors_ex: "map_sensors world_obs_ex map_ex = Some [Some 0, Some 1]"
  by (simp add: map_sensors_def world_obs_ex_def world_ex_def deref_def map_ex_def robot_ex_def)

lemma valid_ex: "list_all (\<lambda>p. deref (heap_sensors world_obs_ex) p \<noteq> None) [Some 0, Some 1]"
  by (simp add: world_obs_ex_def deref_def)

lemma room_ex: "unusedStates map_ex 6" and full_ex: "\<not> unusedStates map_ex 13"
  by (simp_all add: unusedStates_def map_ex_def)

text \<open>
  Claim C3. In a \<^verbatim>\<open>processRaw\<close> cycle of a sensor that is linked to a robot and a map
  and whose observation table has no null entry: when \<^verbatim>\<open>unusedStates\<close> answers false
  for the landmark's size, \<^verbatim>\<open>processRaw\<close> returns, no landmark is created and the map is
  unchanged; when it answers true (and the sensors the map reaches exist), \<^verbatim>\<open>processRaw\<close>
  returns and exactly one landmark is created, whose state is the slice of the next \<open>n\<close>
  cells of the arena, now reserved; and no cycle that returns creates more than one.
\<close>
theorem processRaw_landmark_budget:
  assumes sm: "sensor_map w this = Some (s, a, m)"
    and obs: "observed w (observations s) = Some obs"
  shows "(\<not> unusedStates m n \<longrightarrow>
           (\<exists>w'. processRaw n this w = Some w' \<and>
                 heap_landmarks w' = heap_landmarks w \<and> heap_maps w' = heap_maps w)) \<and>
         (unusedStates m n \<and> map_sensors w m = Some ss \<and>
          list_all (\<lambda>p. deref (heap_sensors w) p \<noteq> None) ss \<longrightarrow>
           (\<exists>w' l m'. processRaw n this w = Some w' \<and>
                 heap_landmarks w' = heap_landmarks w @ [l] \<and>
                 storage (state l) = REMOTE \<and>
                 ia (state l) = [current_size m..<current_size m + n] \<and>
                 deref (heap_maps w') (Some a) = Some m' \<and>
                 current_size m' = current_size m + n)) \<and>
         (\<forall>w'. processRaw n this w = Some w' \<longrightarrow>
                 length (heap_landmarks w') \<le> Suc (length (heap_landmarks w)))"
proof -
  let ?w1 = "w\<lparr>cout := cout w @ explored obs\<rparr>"
  note pr = processRaw_eq [OF sensor_map_sensor [OF sm] obs]
  have sm1: "sensor_map ?w1 this = Some (s, a, m)" using sm by (simp add: sensor_map_cout)
  have full: "\<not> unusedStates m n \<longrightarrow>
           (\<exists>w'. processRaw n this w = Some w' \<and>
                 heap_landmarks w' = heap_landmarks w \<and> heap_maps w' = heap_maps w)"
    using discoverNewLmks_full [OF sm1] by (simp add: pr)
  have room: "unusedStates m n \<and> map_sensors w m = Some ss \<and>
          list_all (\<lambda>p. deref (heap_sensors w) p \<noteq> None) ss \<longrightarrow>
           (\<exists>w' l m'. processRaw n this w = Some w' \<and>
                 heap_landmarks w' = heap_landmarks w @ [l] \<and>
                 storage (state l) = REMOTE \<and>
                 ia (state l) = [current_size m..<current_size m + n] \<and>
                 deref (heap_maps w') (Some a) = Some m' \<and>
                 current_size m' = current_size m + n)"
  proof
    assume h: "unusedStates m n \<and> map_sensors w m = Some ss \<and>
          list_all (\<lambda>p. deref (heap_sensors w) p \<noteq> None) ss"
    then have ss1: "map_sensors ?w1 m = Some ss" by (simp add: map_sensors_cout)
    from h have v1: "list_all (\<lambda>p. deref (heap_sensors ?w1) p \<noteq> None) ss" by simp
    from h have r: "unusedStates m n" by simp
    from discoverNewLmks_room [OF sm1 r ss1 v1] show
      "\<exists>w' l m'. processRaw n this w = Some w' \<and>
                 heap_landmarks w' = heap_landmarks w @ [l] \<and>
                 storage (state l) = REMOTE \<and>
                 ia (state l) = [current_size m..<current_size m + n] \<and>
                 deref (heap_maps w') (Some a) = Some m' \<and>
                 current_size m' = current_size m + n"
      unfolding pr by (elim exE conjE, intro exI conjI) simp_all
  qed
  have most: "\<forall>w'. processRaw n this w = Some w' \<longrightarrow>
                 length (heap_landmarks w') \<le> Suc (length (heap_landmarks w))"
  proof (intro allI impI)
    fix w' assume "processRaw n this w = Some w'"
    then have "discoverNewLmks n this ?w1 = Some w'" by (simp add: pr)
    from discoverNewLmks_Some [OF this] sm1
    show "length (heap_landmarks w') \<le> Suc (length (heap_landmarks w))"
      by (auto split: if_splits)
  qed
  from full room most show ?thesis by blast
qed

theorem processRaw_landmark_budget_witness:
  "sensor_map world_obs_ex 0 = Some (sensor_obs_ex, 0, map_ex) \<and>
   observed world_obs_ex (observations sensor_obs_ex) = Some [obs_ex 3, obs_ex 5] \<and>
   \<not> unusedStates map_ex 13 \<and>
   (\<exists>w'. processRaw 13 0 world_obs_ex = Some w' \<and>
         heap_landmarks w' = heap_landmarks world_obs_ex \<and>
         heap_maps w' = heap_maps world_obs_ex) \<and>
   unusedStates map_ex 6 \<and>
   (\<exists>w' l m'. processRaw 6 0 world_obs_ex = Some w' \<and>
         heap_landmarks w' = heap_landmarks world_obs_ex @ [l] \<and>
         storage (state l) = REMOTE \<and>
         ia (state l) = [21..<27] \<and>
         deref (heap_maps w') (Some 0) = Some m' \<and>
         current_size m' = 27)"
proof -
  have c: "current_size map_ex = 21" by (simp add: map_ex_def)
  from processRaw_landmark_budget [OF sensor_map_ex observed_ex, of 13] full_ex
  have A: "\<exists>w'. processRaw 13 0 world_obs_ex = Some w' \<and>
         heap_landmarks w' = heap_landmarks world_obs_ex \<and>
         heap_maps w' = heap_maps world_obs_ex"
    by blast
  from processRaw_landmark_budget [OF sensor_map_ex observed_ex, of 6 "[Some 0, Some 1]"]
    room_ex map_sensors_ex valid_ex
  have B: "\<exists>w' l m'. processRaw 6 0 world_obs_ex = Some w' \<and>
         heap_landmarks w' = heap_landmarks world_obs_ex @ [l] \<and>
         storage (state l) = REMOTE \<and>
         ia (state l) = [21..<27] \<and>
         deref (heap_maps w') (Some 0) = Some m' \<and>
         current_size m' = 27"
    by (simp add: c)
  from sensor_map_ex observed_ex full_ex room_ex A B show ?thesis by blast
qed

text \<open>
  Claim C5. When discovery creates a landmark, the landmark has the id the map's pool
  held, and the pool has moved on; the map's table maps that id to the landmark and the
  landmark points back to the map; and the table of the sensor, when the sensor is one of
  those the map reaches through its robots, holds under that id an observation of the
  new landmark.
\<close>
theorem discoverNewLmks_registers_landmark:
  assumes sm: "sensor_map w this = Some (s, a, m)" and room: "unusedStates m n"
    and ss: "map_sensors w m = Some ss"
    and valid: "list_all (\<lambda>p. deref (heap_sensors w) p \<noteq> None) ss"
    and reg: "Some this \<in> set ss"
  shows "\<exists>w' l m'. discoverNewLmks n this w = Some w' \<and>
     heap_landmarks w' = heap_landmarks w @ [l] \<and>
     oid l = landmarkIds m \<and>
     deref (heap_maps w') (Some a) = Some m' \<and>
     landmarkIds m' = Suc (landmarkIds m) \<and>
     map_of (landmarks m') (oid l) = Some (Some (length (heap_landmarks w))) \<and>
     lmk_slamMap l = Some a \<and>
     tracks w' this (oid l) (Some (length (heap_landmarks w)))"
proof -
  from discoverNewLmks_room [OF sm room ss valid] obtain w' l m' where
    r: "discoverNewLmks n this w = Some w'"
      "heap_landmarks w' = heap_landmarks w @ [l]"
      "oid l = landmarkIds m" "lmk_slamMap l = Some a"
      "deref (heap_maps w') (Some a) = Some m'"
      "landmarkIds m' = Suc (landmarkIds m)"
      "map_of (landmarks m') (landmarkIds m) = Some (Some (length (heap_landmarks w)))"
      "\<forall>sb. Some sb \<in> set ss \<longrightarrow>
         tracks w' sb (landmarkIds m) (Some (length (heap_landmarks w)))"
    by blast
  from r(8) reg have "tracks w' this (oid l) (Some (length (heap_landmarks w)))"
    by (simp add: r(3))
  with r(1-7) show ?thesis by (simp add: r(3))
qed

theorem discoverNewLmks_registers_landmark_witness:
  "\<exists>w' l m'. discoverNewLmks 6 0 world_obs_ex = Some w' \<and>
     heap_landmarks w' = heap_landmarks world_obs_ex @ [l] \<and>
     oid l = 6 \<and>
     deref (heap_maps w') (Some 0) = Some m' \<and>
     landmarkIds m' = 7 \<and>
     map_of (landmarks m') (oid l) = Some (Some 0) \<and>
     lmk_slamMap l = Some 0 \<and>
     tracks w' 0 (oid l) (Some 0)"
proof -
  have i: "landmarkIds map_ex = 6" by (simp add: map_ex_def)
  have h: "length (heap_landmarks world_obs_ex) = 0"
    by (simp add: world_obs_ex_def world_ex_def)
  have reg: "Some 0 \<in> set [Some 0, Some (1::nat)]" by simp
  from discoverNewLmks_registers_landmark [OF sensor_map_ex room_ex map_sensors_ex valid_ex reg]
  show ?thesis by (simp add: i h)
qed

text \<open>
  Claim C6. A \<^verbatim>\<open>processRaw\<close> that returns has run its two phases in this order.
  First \<^verbatim>\<open>observeKnownLmks\<close> visits every observation of the sensor's table as it is
  at the call, in the table's order, and changes nothing but the output. Only then, in
  that store, \<^verbatim>\<open>discoverNewLmks\<close> queries \<^verbatim>\<open>unusedStates\<close> of the map of the sensor's
  robot for the landmark's size: when the answer is true, one landmark is created with the
  id of the map's pool, its cells are reserved, and its line follows the lines of all the
  observations; when the answer is false, the second phase changes nothing.
\<close>
theorem processRaw_known_then_new:
  assumes "processRaw n this w = Some w'"
  shows "\<exists>s a m obs w1.
      sensor_map w this = Some (s, a, m) \<and>
      observed w (observations s) = Some obs \<and> length obs = length (observations s) \<and>
      observeKnownLmks this w = Some w1 \<and> w1 = w\<lparr>cout := cout w @ explored obs\<rparr> \<and>
      discoverNewLmks n this w1 = Some w' \<and>
      (if unusedStates m n
       then (\<exists>l m'. heap_landmarks w' = heap_landmarks w @ [l] \<and>
               oid l = landmarkIds m \<and>
               ia (state l) = [current_size m..<current_size m + n] \<and>
               deref (heap_maps w') (Some a) = Some m' \<and>
               current_size m' = current_size m + n) \<and>
            cout w' = cout w @ explored obs @
              [Str ''    added lmk: '', Num (landmarkIds m), Endl]
       else w' = w1 \<and> heap_landmarks w' = heap_landmarks w \<and>
            heap_maps w' = heap_maps w \<and> cout w' = cout w @ explored obs)"
proof -
  from assms obtain w1 where ok: "observeKnownLmks this w = Some w1"
    and dn: "discoverNewLmks n this w1 = Some w'"
    by (auto simp: processRaw_def split: Option.bind_splits)
  from ok obtain s0 where s0: "deref (heap_sensors w) (Some this) = Some s0"
    by (auto simp: observeKnownLmks_def split: Option.bind_splits)
  from ok obtain obs where obs: "observed w (observations s0) = Some obs"
    and w1: "w1 = w\<lparr>cout := cout w @ explored obs\<rparr>"
    by (auto simp: observeKnownLmks_eq [OF s0] split: option.splits)
  from discoverNewLmks_Some_exact [OF dn] obtain s a m where
    sm1: "sensor_map w1 this = Some (s, a, m)"
    and c: "if unusedStates m n
      then (\<exists>l m'. heap_landmarks w' = heap_landmarks w1 @ [l] \<and>
              oid l = landmarkIds m \<and>
              ia (state l) = [current_size m..<current_size m + n] \<and>
              deref (heap_maps w') (Some a) = Some m' \<and>
              current_size m' = current_size m + n) \<and>
           cout w' = cout w1 @ [Str ''    added lmk: '', Num (landmarkIds m), Endl]
      else w' = w1"
    by blast
  from sm1 have sm: "sensor_map w this = Some (s, a, m)"
    by (simp add: w1 sensor_map_cout)
  from sensor_map_sensor [OF sm] s0 have s: "s0 = s" by simp
  have "if unusedStates m n
       then (\<exists>l m'. heap_landmarks w' = heap_landmarks w @ [l] \<and>
               oid l = landmarkIds m \<and>
               ia (state l) = [current_size m..<current_size m + n] \<and>
               deref (heap_maps w') (Some a) = Some m' \<and>
               current_size m' = current_size m + n) \<and>
            cout w' = cout w @ explored obs @
              [Str ''    added lmk: '', Num (landmarkIds m), Endl]
       else w' = w1 \<and> heap_landmarks w' = heap_landmarks w \<and>
            heap_maps w' = heap_maps w \<and> cout w' = cout w @ explored obs"
  proof (cases "unusedStates m n")
    case True
    with c show ?thesis by (simp add: w1)
  next
    case False
    with c show ?thesis by (simp add: w1)
  qed
  with sm obs observed_length [OF obs] ok w1 dn show ?thesis
    unfolding s by blast
qed

theorem processRaw_known_then_new_witness:
  "unusedStates map_ex 6 \<and>
   (\<exists>w' w1 l m'.
      processRaw 6 0 world_obs_ex = Some w' \<and>
      observeKnownLmks 0 world_obs_ex = Some w1 \<and>
      cout w1 = [Str ''exploring obs: '', Num 3, Endl, Str ''exploring obs: '', Num 5, Endl] \<and>
      heap_landmarks w1 = [] \<and> heap_maps w1 = [map_ex] \<and>
      discoverNewLmks 6 0 w1 = Some w' \<and>
      heap_landmarks w' = [l] \<and> oid l = 6 \<and> ia (state l) = [21..<27] \<and>
      deref (heap_maps w') (Some 0) = Some m' \<and> current_size m' = 27 \<and>
      cout w' = [Str ''exploring obs: '', Num 3, Endl, Str ''exploring obs: '', Num 5, Endl,
                 Str ''    added lmk: '', Num 6, Endl]) \<and>
   \<not> unusedStates map_ex 13 \<and>
   (\<exists>w' w1.
      processRaw 13 0 world_obs_ex = Some w' \<and>
      observeKnownLmks 0 world_obs_ex = Some w1 \<and>
      discoverNewLmks 13 0 w1 = Some w' \<and> w' = w1 \<and>
      heap_landmarks w' = [] \<and> heap_maps w' = [map_ex] \<and>
      cout w' = [Str ''exploring obs: '', Num 3, Endl, Str ''exploring obs: '', Num 5, Endl])"
proof -
  let ?w1 = "world_obs_ex\<lparr>cout := cout world_obs_ex @ explored [obs_ex 3, obs_ex 5]\<rparr>"
  note pr = processRaw_eq [OF sensor_map_sensor [OF sensor_map_ex] observed_ex]
  have ex: "cout world_obs_ex @ explored [obs_ex 3, obs_ex 5] =
      [Str ''exploring obs: '', Num 3, Endl, Str ''exploring obs: '', Num 5, Endl]"
    by (simp add: explored_def obs_ex_def world_obs_ex_def world_ex_def)
  have hl: "heap_landmarks world_obs_ex = []" and hm: "heap_maps world_obs_ex = [map_ex]"
    by (simp_all add: world_obs_ex_def world_ex_def)
  have cs: "current_size map_ex = 21" and li: "landmarkIds map_ex = 6"
    by (simp_all add: map_ex_def)
  have A: "\<exists>w' w1 l m'.
      processRaw 6 0 world_obs_ex = Some w' \<and>
      observeKnownLmks 0 world_obs_ex = Some w1 \<and>
      cout w1 = [Str ''exploring obs: '', Num 3, Endl, Str ''exploring obs: '', Num 5, Endl] \<and>
      heap_landmarks w1 = [] \<and> heap_maps w1 = [map_ex] \<and>
      discoverNewLmks 6 0 w1 = Some w' \<and>
      heap_landmarks w' = [l] \<and> oid l = 6 \<and> ia (state l) = [21..<27] \<and>
      deref (heap_maps w') (Some 0) = Some m' \<and> current_size m' = 27 \<and>
      cout w' = [Str ''exploring obs: '', Num 3, Endl, Str ''exploring obs: '', Num 5, Endl,
                 Str ''    added lmk: '', Num 6, Endl]"
  proof -
    from discoverNewLmks_room [of ?w1 0 sensor_obs_ex 0 map_ex 6 "[Some 0, Some 1]"]
      sensor_map_ex room_ex map_sensors_ex valid_ex
    obtain w' where run: "processRaw 6 0 world_obs_ex = Some w'"
      unfolding pr by (auto simp: sensor_map_cout map_sensors_cout)
    from processRaw_known_then_new [OF run] obtain s a m obs w1 where r:
      "sensor_map world_obs_ex 0 = Some (s, a, m)"
      "observed world_obs_ex (observations s) = Some obs"
      "observeKnownLmks 0 world_obs_ex = Some w1"
      "w1 = world_obs_ex\<lparr>cout := cout world_obs_ex @ explored obs\<rparr>"
      "discoverNewLmks 6 0 w1 = Some w'"
      "if unusedStates m 6
       then (\<exists>l m'. heap_landmarks w' = heap_landmarks world_obs_ex @ [l] \<and>
               oid l = landmarkIds m \<and>
               ia (state l) = [current_size m..<current_size m + 6] \<and>
               deref (heap_maps w') (Some a) = Some m' \<and>
               current_size m' = current_size m + 6) \<and>
            cout w' = cout world_obs_ex @ explored obs @
              [Str ''    added lmk: '', Num (landmarkIds m), Endl]
       else w' = w1 \<and> heap_landmarks w' = heap_landmarks world_obs_ex \<and>
            heap_maps w' = heap_maps world_obs_ex \<and>
            cout w' = cout world_obs_ex @ explored obs"
      by blast
    from r(1) sensor_map_ex have e: "s = sensor_obs_ex" "a = 0" "m = map_ex" by simp_all
    from r(2) observed_ex have o: "obs = [obs_ex 3, obs_ex 5]" by (simp add: e)
    from r(6) room_ex obtain l m' where t:
      "heap_landmarks w' = [l]" "oid l = 6" "ia (state l) = [21..<27]"
      "deref (heap_maps w') (Some 0) = Some m'" "current_size m' = 27"
      "cout w' = (cout world_obs_ex @ explored [obs_ex 3, obs_ex 5]) @
         [Str ''    added lmk: '', Num 6, Endl]"
      by (auto simp: e o hl cs li)
    have c1: "cout w1 = [Str ''exploring obs: '', Num 3, Endl, Str ''exploring obs: '', Num 5, Endl]"
      by (simp add: r(4) o ex)
    have h1: "heap_landmarks w1 = []" "heap_maps w1 = [map_ex]"
      by (simp_all add: r(4) hl hm)
    from t(6) have c2: "cout w' =
        [Str ''exploring obs: '', Num 3, Endl, Str ''exploring obs: '', Num 5, Endl,
         Str ''    added lmk: '', Num 6, Endl]"
      unfolding ex by simp
    from run r(3,5) c1 h1 t(1-5) c2 show ?thesis by blast
  qed
  have B: "\<exists>w' w1.
      processRaw 13 0 world_obs_ex = Some w' \<and>
      observeKnownLmks 0 world_obs_ex = Some w1 \<and>
      discoverNewLmks 13 0 w1 = Some w' \<and> w' = w1 \<and>
      heap_landmarks w' = [] \<and> heap_maps w' = [map_ex] \<and>
      cout w' = [Str ''exploring obs: '', Num 3, Endl, Str ''exploring obs: '', Num 5, Endl]"
  proof -
    from discoverNewLmks_full [of ?w1 0 sensor_obs_ex 0 map_ex 13] sensor_map_ex full_ex
    obtain w' where run: "processRaw 13 0 world_obs_ex = Some w'"
      unfolding pr by (auto simp: sensor_map_cout)
    from processRaw_known_then_new [OF run] obtain s a m obs w1 where r:
      "sensor_map world_obs_ex 0 = Some (s, a, m)"
      "observed world_obs_ex (observations s) = Some obs"
      "observeKnownLmks 0 world_obs_ex = Some w1"
      "discoverNewLmks 13 0 w1 = Some w'"
      "if unusedStates m 13
       then (\<exists>l m'. heap_landmarks w' = heap_landmarks world_obs_ex @ [l] \<and>
               oid l = landmarkIds m \<and>
               ia (state l) = [current_size m..<current_size m + 13] \<and>
               deref (heap_maps w') (Some a) = Some m' \<and>
               current_size m' = current_size m + 13) \<and>
            cout w' = cout world_obs_ex @ explored obs @
              [Str ''    added lmk: '', Num (landmarkIds m), Endl]
       else w' = w1 \<and> heap_landmarks w' = heap_landmarks world_obs_ex \<and>
            heap_maps w' = heap_maps world_obs_ex \<and>
            cout w' = cout world_obs_ex @ explored obs"
      by blast
    from r(1) sensor_map_ex have e: "s = sensor_obs_ex" "a = 0" "m = map_ex" by simp_all
    from r(2) observed_ex have o: "obs = [obs_ex 3, obs_ex 5]" by (simp add: e)
    from r(5) full_ex have t: "w' = w1" "heap_landmarks w' = []" "heap_maps w' = [map_ex]"
      "cout w' = [Str ''exploring obs: '', Num 3, Endl, Str ''exploring obs: '', Num 5, Endl]"
      by (auto simp: e o hl hm ex)
    from run r(3,4) t show ?thesis by blast
  qed
  from room_ex full_ex A B show ?thesis by blast
qed

text \<open>
  The scenario of the spec's section 8, in the concrete store: the arena has 12 free
  cells, room for two landmarks of size 6. Three calls of \<^verbatim>\<open>processRaw\<close> return; the
  first two create one landmark each (ids 6 and 7, 27 then 33 cells reserved), the third
  creates none.
\<close>
lemma three_cycles_ex:
  "map_option (\<lambda>w. (map current_size (heap_maps w), map oid (heap_landmarks w)))
     (cycles 1 6 0 world_obs_ex) = Some ([27], [6])"
  "map_option (\<lambda>w. (map current_size (heap_maps w), map oid (heap_landmarks w)))
     (cycles 2 6 0 world_obs_ex) = Some ([33], [6, 7])"
  "map_option (\<lambda>w. (map current_size (heap_maps w), map oid (heap_landmarks w)))
     (cycles 3 6 0 world_obs_ex) = Some ([33], [6, 7])"
  by code_simp+

end
